theory Spec2Isabelle
  imports Main "HOL-Library.Word"
begin

section \<open>Strings, numbers and values of the JavaScript runtime\<close>

text \<open>
  The worker of \<^verbatim>\<open>packages/user-mgmt/src/index.ts\<close> is embedded function by function.
  A string is a \<^typ>\<open>string\<close>; the values of HTTP headers are byte strings on the
  platform, so one \<^typ>\<open>char\<close> per code unit is exact for them. A byte of a
  \<^verbatim>\<open>Uint8Array\<close> is an \<^typ>\<open>8 word\<close>.
\<close>

type_synonym byte = "8 word"

text \<open>A thrown exception (a rejected promise): the two kinds the runtime itself raises
  here, and anything a collaborator may throw. A function that may throw returns
  \<open>exn + 'a\<close>, with \<open>Inl\<close> for the exception.\<close>

datatype exn = SyntaxError | TypeError | Thrown string

text \<open>\<^verbatim>\<open>Number.prototype.toString(radix)\<close> on a non-negative integer.\<close>

definition digit_char :: "nat \<Rightarrow> char" where
  "digit_char d = ''0123456789abcdefghijklmnopqrstuvwxyz'' ! d"

function toString_radix :: "nat \<Rightarrow> nat \<Rightarrow> string" where
  "toString_radix r n =
     (if n < r \<or> r < 2 then [digit_char n]
      else toString_radix r (n div r) @ [digit_char (n mod r)])"
  by pat_completeness auto
termination
  by (relation "measure (\<lambda>(r, n). n)") auto

declare toString_radix.simps [simp del]

text \<open>\<^verbatim>\<open>s.padStart(n, c)\<close> with a one-character filler.\<close>

definition padStart :: "nat \<Rightarrow> char \<Rightarrow> string \<Rightarrow> string" where
  "padStart n c s = replicate (n - length s) c @ s"

text \<open>\<^verbatim>\<open>xs.join(sep)\<close> on an array of strings.\<close>

fun join_js :: "string \<Rightarrow> string list \<Rightarrow> string" where
  "join_js sep [] = []"
| "join_js sep [x] = x"
| "join_js sep (x # y # ys) = x @ sep @ join_js sep (y # ys)"

text \<open>\<^verbatim>\<open>s.split(sep)\<close> with a one-character separator: the empty string gives one
  empty piece, and every occurrence of the separator starts a new piece.\<close>

fun split_js :: "char \<Rightarrow> string \<Rightarrow> string list" where
  "split_js sep [] = [[]]"
| "split_js sep (c # cs) =
     (if c = sep then [] # split_js sep cs
      else (case split_js sep cs of [] \<Rightarrow> [[c]] | p # ps \<Rightarrow> (c # p) # ps))"

text \<open>\<^verbatim>\<open>xs[i]\<close>: \<^verbatim>\<open>undefined\<close> (here \<open>None\<close>) out of range.\<close>

definition at_js :: "'a list \<Rightarrow> nat \<Rightarrow> 'a option" where
  "at_js xs i = (if i < length xs then Some (xs ! i) else None)"

text \<open>\<^verbatim>\<open>s.trim()\<close>: the white space of ECMAScript among the code units below 256.\<close>

definition is_whitespace :: "char \<Rightarrow> bool" where
  "is_whitespace c \<longleftrightarrow>
     c \<in> set [CHR 0x09, CHR 0x0A, CHR 0x0B, CHR 0x0C, CHR 0x0D, CHR 0x20, CHR 0xA0]"

definition trim :: "string \<Rightarrow> string" where
  "trim s = rev (dropWhile is_whitespace (rev (dropWhile is_whitespace s)))"

definition startsWith :: "string \<Rightarrow> string \<Rightarrow> bool" where
  "startsWith s p \<longleftrightarrow> take (length p) s = p"

text \<open>\<^verbatim>\<open>x || d\<close> for \<^verbatim>\<open>x: string | null\<close>: the empty string is falsy as \<^verbatim>\<open>null\<close> is.\<close>

definition or_else :: "string option \<Rightarrow> string \<Rightarrow> string" where
  "or_else x d = (case x of None \<Rightarrow> d | Some s \<Rightarrow> if s = [] then d else s)"

text \<open>
  A value as \<^verbatim>\<open>JSON.parse\<close> or a database row delivers it, and \<^verbatim>\<open>undefined\<close> for
  an absent property. A number is carried as its canonical rendering
  (\<^verbatim>\<open>String(x)\<close>), which is all this program reads of a number. An object is the
  list of its own properties, looked up with \<^const>\<open>map_of\<close>.
\<close>

datatype jsval =
    JUndefined
  | JNull
  | JBool bool
  | JNum string
  | JStr string
  | JArr "jsval list"
  | JObj "(string \<times> jsval) list"

text \<open>Truthiness, as \<^verbatim>\<open>!x\<close> and \<^verbatim>\<open>if (x)\<close> read it.\<close>

fun truthy :: "jsval \<Rightarrow> bool" where
  "truthy JUndefined = False"
| "truthy JNull = False"
| "truthy (JBool b) = b"
| "truthy (JNum r) = (r \<noteq> ''0'' \<and> r \<noteq> ''NaN'')"
| "truthy (JStr s) = (s \<noteq> [])"
| "truthy (JArr xs) = True"
| "truthy (JObj kvs) = True"

text \<open>
  Reading a property \<^verbatim>\<open>v.k\<close>, also by destructuring \<^verbatim>\<open>const { k } = v\<close>: a
  \<^verbatim>\<open>TypeError\<close> on \<^verbatim>\<open>null\<close> and \<^verbatim>\<open>undefined\<close>, the own property of an object,
  and \<^verbatim>\<open>undefined\<close> otherwise (none of the names read in this program is a
  property of a primitive's or an array's prototype).
\<close>

fun get_prop :: "jsval \<Rightarrow> string \<Rightarrow> exn + jsval" where
  "get_prop JUndefined k = Inl TypeError"
| "get_prop JNull k = Inl TypeError"
| "get_prop (JObj kvs) k = Inr (case map_of kvs k of None \<Rightarrow> JUndefined | Some v \<Rightarrow> v)"
| "get_prop v k = Inr JUndefined"

fun sequence_sum :: "('e + 'a) list \<Rightarrow> 'e + 'a list" where
  "sequence_sum [] = Inr []"
| "sequence_sum (x # xs) =
     (case x of
        Inl e \<Rightarrow> Inl e
      | Inr v \<Rightarrow> (case sequence_sum xs of Inl e \<Rightarrow> Inl e | Inr vs \<Rightarrow> Inr (v # vs)))"

text \<open>
  The string an operand of \<^verbatim>\<open>+\<close> turns into next to a string: an array joins its
  elements with a comma, a plain object prints as \<^verbatim>\<open>[object Object]\<close>, unless an own
  property hides \<^verbatim>\<open>toString\<close> (never a function after \<^verbatim>\<open>JSON.parse\<close>), which is a
  \<^verbatim>\<open>TypeError\<close>.
\<close>

fun js_toString :: "jsval \<Rightarrow> exn + string" where
  "js_toString JUndefined = Inr ''undefined''"
| "js_toString JNull = Inr ''null''"
| "js_toString (JBool b) = Inr (if b then ''true'' else ''false'')"
| "js_toString (JNum r) = Inr r"
| "js_toString (JStr s) = Inr s"
| "js_toString (JArr xs) =
     (case sequence_sum
             (map (\<lambda>x. if x = JUndefined \<or> x = JNull then Inr [] else js_toString x) xs) of
        Inl e \<Rightarrow> Inl e
      | Inr ss \<Rightarrow> Inr (join_js '','' ss))"
| "js_toString (JObj kvs) =
     (if ''toString'' \<in> fst ` set kvs then Inl TypeError else Inr ''[object Object]'')"

text \<open>\<^verbatim>\<open>a + b\<close> where one operand is a string: both are rendered, left first.\<close>

definition js_concat :: "jsval \<Rightarrow> jsval \<Rightarrow> exn + string" where
  "js_concat a b =
     (case js_toString a of
        Inl e \<Rightarrow> Inl e
      | Inr x \<Rightarrow> (case js_toString b of Inl e \<Rightarrow> Inl e | Inr y \<Rightarrow> Inr (x @ y)))"

definition of_string_option :: "string option \<Rightarrow> jsval" where
  "of_string_option x = (case x of None \<Rightarrow> JUndefined | Some s \<Rightarrow> JStr s)"

section \<open>Requests, responses and headers\<close>

text \<open>
  A \<^verbatim>\<open>Headers\<close> object maps a header name, compared without regard to ASCII case, to
  its value: the map is keyed by the lower-cased name.
\<close>

definition lower_ascii :: "char \<Rightarrow> char" where
  "lower_ascii c =
     (case map_of (zip ''ABCDEFGHIJKLMNOPQRSTUVWXYZ'' ''abcdefghijklmnopqrstuvwxyz'') c of
        None \<Rightarrow> c
      | Some d \<Rightarrow> d)"

definition toLowerCase :: "string \<Rightarrow> string" where
  "toLowerCase s = map lower_ascii s"

type_synonym headers = "string \<rightharpoonup> string"

definition headers_get :: "headers \<Rightarrow> string \<Rightarrow> string option" where
  "headers_get h name = h (toLowerCase name)"

text \<open>
  A header value, as the platform holds it: \<^verbatim>\<open>set\<close> and the constructor first strip
  the HTTP white space (tab, line feed, carriage return, space) at both ends of the
  value, and throw a \<^verbatim>\<open>TypeError\<close> when a NUL, a line feed or a carriage return is
  left in it. The names under which this program stores values are constants of its
  text, all of them legal.
\<close>

definition is_http_whitespace :: "char \<Rightarrow> bool" where
  "is_http_whitespace c \<longleftrightarrow> c \<in> set [CHR 0x09, CHR 0x0A, CHR 0x0D, CHR 0x20]"

definition normalize_value :: "string \<Rightarrow> string" where
  "normalize_value v =
     rev (dropWhile is_http_whitespace (rev (dropWhile is_http_whitespace v)))"

definition has_forbidden_byte :: "string \<Rightarrow> bool" where
  "has_forbidden_byte v \<longleftrightarrow> list_ex (\<lambda>c. c \<in> set [CHR 0x00, CHR 0x0A, CHR 0x0D]) v"

definition is_header_value :: "string \<Rightarrow> bool" where
  "is_header_value v \<longleftrightarrow> normalize_value v = v \<and> \<not> has_forbidden_byte v"

definition headers_set :: "headers \<Rightarrow> string \<Rightarrow> string \<Rightarrow> exn + headers" where
  "headers_set h name v =
     (let value = normalize_value v in
      if has_forbidden_byte value then Inl TypeError
      else Inr (h(toLowerCase name \<mapsto> value)))"

text \<open>
  \<^verbatim>\<open>new Headers({...})\<close> and the \<^verbatim>\<open>headers\<close> of a \<^verbatim>\<open>ResponseInit\<close>, from an
  object literal listed in order (a key assigned twice keeps its last value, as the
  object does): each entry is stored in turn, and the first illegal value throws.
\<close>

fun fill_headers :: "headers \<Rightarrow> (string \<times> string) list \<Rightarrow> exn + headers" where
  "fill_headers h [] = Inr h"
| "fill_headers h ((k, v) # kvs) =
     (case headers_set h k v of Inl e \<Rightarrow> Inl e | Inr h' \<Rightarrow> fill_headers h' kvs)"

definition new_Headers :: "(string \<times> string) list \<Rightarrow> exn + headers" where
  "new_Headers kvs = fill_headers Map.empty kvs"

text \<open>The headers of a request as the platform delivers them, from a list.\<close>

definition delivered_headers :: "(string \<times> string) list \<Rightarrow> headers" where
  "delivered_headers kvs = foldl (\<lambda>h (k, v). h(toLowerCase k \<mapsto> v)) Map.empty kvs"

text \<open>A body: none, a text, or the text \<^verbatim>\<open>JSON.stringify(v)\<close> of a value \<open>v\<close>.\<close>

datatype body = NoBody | Text string | Json jsval

text \<open>The incoming \<^verbatim>\<open>Request\<close>; \<open>json\<close> is what \<^verbatim>\<open>await request.json()\<close> yields:
  the parsed body, or the exception of a body that is not JSON.\<close>

record request =
  "method" :: string
  url :: string
  headers :: headers
  json :: "exn + jsval"

text \<open>
  The \<^verbatim>\<open>Response\<close> the worker answers with. \<open>new_Response\<close> is the constructor given a
  \<^verbatim>\<open>Headers\<close> object (or none, the empty map): \<open>status\<close> is 200 unless given, and a
  body that is a string brings \<^verbatim>\<open>Content-Type: text/plain;charset=UTF-8\<close> when the
  headers name no content type. \<open>new_Response_init\<close> is the constructor given the headers
  as an object literal, which it turns into \<^verbatim>\<open>Headers\<close> first.
\<close>

record response =
  status :: nat
  resp_headers :: headers
  resp_body :: body

definition new_Response :: "body \<Rightarrow> nat option \<Rightarrow> headers \<Rightarrow> response" where
  "new_Response b st h =
     \<lparr>status = (case st of None \<Rightarrow> 200 | Some n \<Rightarrow> n),
      resp_headers =
        (if b \<noteq> NoBody \<and> h ''content-type'' = None
         then h(''content-type'' \<mapsto> ''text/plain;charset=UTF-8'') else h),
      resp_body = b\<rparr>"

definition new_Response_init ::
  "body \<Rightarrow> nat option \<Rightarrow> (string \<times> string) list \<Rightarrow> exn + response" where
  "new_Response_init b st kvs =
     (case new_Headers kvs of Inl e \<Rightarrow> Inl e | Inr h \<Rightarrow> Inr (new_Response b st h))"

text \<open>The \<^verbatim>\<open>Request\<close> the worker sends to the session service, and what it reads of the
  \<^verbatim>\<open>Response\<close> it gets: \<^verbatim>\<open>await r.text()\<close> and \<^verbatim>\<open>await r.json()\<close>.\<close>

record service_request =
  sr_url :: string
  sr_method :: string
  sr_headers :: "(string \<times> string) list"
  sr_body :: body

record service_response =
  text_of :: "exn + string"
  json_of :: "exn + jsval"

text \<open>What \<^verbatim>\<open>all()\<close> of a prepared D1 statement resolves to.\<close>

record d1_result =
  success :: bool
  results :: "jsval list"

text \<open>A parsed \<^verbatim>\<open>URL\<close>, as far as the program reads it.\<close>

record url_record =
  protocol :: string
  pathname :: string

section \<open>The environment and its effects\<close>

text \<open>
  \<^verbatim>\<open>Env\<close> holds the two bindings of the worker, the user database and the session
  service; the globals of the platform that the code calls (\<^verbatim>\<open>crypto\<close>,
  \<^verbatim>\<open>TextEncoder\<close>, \<^verbatim>\<open>URL\<close>) are parameters beside them. The collaborators act
  on a world \<open>'w\<close> that the program cannot see: a call steps the world and answers
  with a value or an exception. \<open>crypto_digest\<close> is \<^verbatim>\<open>crypto.subtle.digest\<close>, a function
  of the name of the algorithm and the data; \<open>URL_parse\<close> is \<open>None\<close> where
  \<^verbatim>\<open>new URL(s)\<close> throws.
\<close>

record 'w Env =
  usersDB_all :: "string \<Rightarrow> jsval list \<Rightarrow> 'w \<Rightarrow> (exn + d1_result) \<times> 'w"
  usersDB_run :: "string \<Rightarrow> jsval list \<Rightarrow> 'w \<Rightarrow> (exn + unit) \<times> 'w"
  sessionService_fetch :: "service_request \<Rightarrow> 'w \<Rightarrow> (exn + service_response) \<times> 'w"
  crypto_getRandomValues :: "nat \<Rightarrow> 'w \<Rightarrow> byte list \<times> 'w"
  crypto_digest :: "string \<Rightarrow> byte list \<Rightarrow> byte list"
  TextEncoder_encode :: "string \<Rightarrow> byte list"
  URL_parse :: "string \<Rightarrow> url_record option"

text \<open>Every call that leaves the worker is recorded, in order.\<close>

datatype call =
    DbAll string "jsval list"
  | DbRun string "jsval list"
  | ServiceFetch service_request
  | RandomValues nat
  | ConsoleError exn

record 'w sys =
  world :: 'w
  trace :: "call list"

type_synonym ('w, 'a) prog = "'w sys \<Rightarrow> (exn + 'a) \<times> 'w sys"

definition ret :: "'a \<Rightarrow> ('w, 'a) prog" where
  "ret x = (\<lambda>s. (Inr x, s))"

definition lift :: "exn + 'a \<Rightarrow> ('w, 'a) prog" where
  "lift r = (\<lambda>s. (r, s))"

text \<open>\<^verbatim>\<open>await\<close> and sequencing: an exception skips the rest.\<close>

definition bind :: "('w, 'a) prog \<Rightarrow> ('a \<Rightarrow> ('w, 'b) prog) \<Rightarrow> ('w, 'b) prog" where
  "bind m f = (\<lambda>s. case m s of (Inl e, s') \<Rightarrow> (Inl e, s') | (Inr x, s') \<Rightarrow> f x s')"

text \<open>\<^verbatim>\<open>try { m } catch (error) { h error }\<close>.\<close>

definition try_catch :: "('w, 'a) prog \<Rightarrow> (exn \<Rightarrow> ('w, 'a) prog) \<Rightarrow> ('w, 'a) prog" where
  "try_catch m h = (\<lambda>s. case m s of (Inl e, s') \<Rightarrow> h e s' | (Inr x, s') \<Rightarrow> (Inr x, s'))"

definition record_call :: "call \<Rightarrow> 'w \<Rightarrow> 'w sys \<Rightarrow> 'w sys" where
  "record_call c w s = \<lparr>world = w, trace = trace s @ [c]\<rparr>"

text \<open>\<^verbatim>\<open>env.usersDB.prepare(q).bind(...args).all()\<close> and \<^verbatim>\<open>.run()\<close>.\<close>

definition db_all :: "'w Env \<Rightarrow> string \<Rightarrow> jsval list \<Rightarrow> ('w, d1_result) prog" where
  "db_all env q args =
     (\<lambda>s. case usersDB_all env q args (world s) of (r, w) \<Rightarrow> (r, record_call (DbAll q args) w s))"

definition db_run :: "'w Env \<Rightarrow> string \<Rightarrow> jsval list \<Rightarrow> ('w, unit) prog" where
  "db_run env q args =
     (\<lambda>s. case usersDB_run env q args (world s) of (r, w) \<Rightarrow> (r, record_call (DbRun q args) w s))"

text \<open>\<^verbatim>\<open>env.sessionService.fetch(request)\<close>.\<close>

definition service_fetch :: "'w Env \<Rightarrow> service_request \<Rightarrow> ('w, service_response) prog" where
  "service_fetch env rq =
     (\<lambda>s. case sessionService_fetch env rq (world s) of
             (r, w) \<Rightarrow> (r, record_call (ServiceFetch rq) w s))"

text \<open>\<^verbatim>\<open>crypto.getRandomValues(new Uint8Array(n))\<close>.\<close>

definition random_values :: "'w Env \<Rightarrow> nat \<Rightarrow> ('w, byte list) prog" where
  "random_values env n =
     (\<lambda>s. case crypto_getRandomValues env n (world s) of
             (bs, w) \<Rightarrow> (Inr bs, record_call (RandomValues n) w s))"

definition console_error :: "exn \<Rightarrow> ('w, unit) prog" where
  "console_error e = (\<lambda>s. (Inr (), s\<lparr>trace := trace s @ [ConsoleError e]\<rparr>))"

text \<open>\<^verbatim>\<open>new URL(s)\<close>.\<close>

definition new_URL :: "'w Env \<Rightarrow> string \<Rightarrow> exn + url_record" where
  "new_URL env s = (case URL_parse env s of None \<Rightarrow> Inl TypeError | Some u \<Rightarrow> Inr u)"

section \<open>The password functions\<close>

definition hashingAlgo :: string where
  "hashingAlgo = ''SHA-256''"

text \<open>\<^verbatim>\<open>hashArray.map(b => b.toString(16).padStart(2, '0')).join('')\<close>.\<close>

definition hashHex_of :: "byte list \<Rightarrow> string" where
  "hashHex_of hashArray =
     join_js [] (map (\<lambda>b. padStart 2 (CHR ''0'') (toString_radix 16 (unat b))) hashArray)"

text \<open>The salt: the sixteen random bytes, each printed in decimal, joined with nothing
  between them.\<close>

definition salt_of :: "byte list \<Rightarrow> string" where
  "salt_of bytes = join_js [] (map (\<lambda>b. toString_radix 10 (unat b)) bytes)"

definition hashPassword :: "'w Env \<Rightarrow> jsval \<Rightarrow> ('w, string) prog" where
  "hashPassword env password =
     bind (random_values env 16) (\<lambda>bytes.
       let salt = salt_of bytes in
       bind (lift (js_concat (JStr salt) password)) (\<lambda>salted.
         let data = TextEncoder_encode env salted;
             hashBuffer = crypto_digest env hashingAlgo data;
             hashHex = hashHex_of hashBuffer
         in ret (salt @ '':'' @ hashHex)))"

text \<open>
  \<^verbatim>\<open>const [salt, originalHash] = storedHash.split(':')\<close> takes the first two pieces
  (the second is \<^verbatim>\<open>undefined\<close> when there is no colon); only a string has
  \<^verbatim>\<open>split\<close>.
\<close>

definition comparePassword :: "'w Env \<Rightarrow> jsval \<Rightarrow> jsval \<Rightarrow> exn + bool" where
  "comparePassword env providedPassword storedHash =
     (case storedHash of
        JStr stored \<Rightarrow>
          (let parts = split_js (CHR '':'') stored;
               salt = at_js parts 0;
               originalHash = at_js parts 1
           in case js_concat (of_string_option salt) providedPassword of
                Inl e \<Rightarrow> Inl e
              | Inr salted \<Rightarrow>
                  (let data = TextEncoder_encode env salted;
                       hashBuffer = crypto_digest env hashingAlgo data;
                       hashHex = hashHex_of hashBuffer
                   in Inr (Some hashHex = originalHash)))
      | _ \<Rightarrow> Inl TypeError)"

section \<open>The origin validator and the preflight answer\<close>

definition corsHeaders :: "(string \<times> string) list" where
  "corsHeaders =
     [(''Access-Control-Allow-Origin'', ''*''),
      (''Access-Control-Allow-Methods'', ''GET,HEAD,POST,OPTIONS''),
      (''Access-Control-Max-Age'', ''86400''),
      (''Access-Control-Allow-Credentials'', ''true'')]"

definition getValidatedOrigin :: "'w Env \<Rightarrow> request \<Rightarrow> exn + string option" where
  "getValidatedOrigin env request =
     (case headers_get (headers request) ''Origin'' of
        None \<Rightarrow> Inr None
      | Some origin \<Rightarrow>
          (case new_URL env origin of
             Inl e \<Rightarrow> Inl e
           | Inr u \<Rightarrow>
               if protocol u = ''http:'' \<or> protocol u = ''https:'' then Inr (Some origin)
               else Inr None))"

definition handleOptions :: "'w Env \<Rightarrow> request \<Rightarrow> exn + response" where
  "handleOptions env request =
     (let hs = headers request in
      if headers_get hs ''Origin'' \<noteq> None \<and>
         headers_get hs ''Access-Control-Request-Method'' \<noteq> None \<and>
         headers_get hs ''Access-Control-Request-Headers'' \<noteq> None
      then
        (case getValidatedOrigin env request of
           Inl e \<Rightarrow> Inl e
         | Inr origin \<Rightarrow>
             new_Response_init NoBody None
                    (corsHeaders @
                     [(''Access-Control-Allow-Headers'',
                         or_else (headers_get hs ''Access-Control-Request-Headers'') []),
                      (''Content-Type'', ''text/plain''),
                      (''X-Content-Type-Options'', ''nosniff''),
                      (''Access-Control-Allow-Origin'', or_else origin ''*'')]))
      else
        new_Response_init NoBody None
          [(''Allow'', ''GET, HEAD, POST, OPTIONS''), (''Content-Type'', ''text/plain'')])"

section \<open>Decoding the session cookie\<close>

text \<open>
  The block that \<^verbatim>\<open>handleLoadUser\<close> and \<^verbatim>\<open>handleLogout\<close> both open with, from the
  value of \<^verbatim>\<open>request.headers.get('Cookie')\<close> to \<^verbatim>\<open>sessionId\<close>. \<open>None\<close> is the
  \<^verbatim>\<open>null\<close> that \<^verbatim>\<open>sessionId\<close> starts with; the handlers test the result for
  truthiness, so an empty session id counts as none there.
\<close>

definition sessionId_of_cookie :: "string option \<Rightarrow> string option" where
  "sessionId_of_cookie cookieHeader =
     (case cookieHeader of
        None \<Rightarrow> None
      | Some c \<Rightarrow>
          if c = [] then None
          else
            (let cookies = map trim (split_js (CHR '';'') c);
                 sessionCookie = find (\<lambda>cookie. startsWith cookie ''cfw_session='') cookies
             in case sessionCookie of
                  None \<Rightarrow> None
                | Some sc \<Rightarrow> if sc = [] then None else at_js (split_js (CHR ''='') sc) 1))"

section \<open>The handlers\<close>

definition error_body :: "string \<Rightarrow> body" where
  "error_body msg = Json (JObj [(''error'', JStr msg)])"

definition message_body :: "string \<Rightarrow> body" where
  "message_body msg = Json (JObj [(''message'', JStr msg)])"

definition handleLoadUser :: "'w Env \<Rightarrow> request \<Rightarrow> ('w, response) prog" where
  "handleLoadUser env request =
     (let cookieHeader = headers_get (headers request) ''Cookie'';
          sessionId = sessionId_of_cookie cookieHeader;
          notLoggedIn = ret (new_Response (error_body ''User not logged in'') (Some 401) Map.empty)
      in case sessionId of
           None \<Rightarrow> notLoggedIn
         | Some sid \<Rightarrow>
             if sid = [] then notLoggedIn
             else
               (let loadSessionUrl = ''https://session-state.d1.compact.workers.dev/get/'' @ sid;
                    loadRequest = \<lparr>sr_url = loadSessionUrl, sr_method = ''GET'',
                                   sr_headers = [], sr_body = NoBody\<rparr>
                in bind (service_fetch env loadRequest) (\<lambda>loadResponse.
                   bind (lift (json_of loadResponse)) (\<lambda>sessionData.
                   bind (lift (getValidatedOrigin env request)) (\<lambda>origin.
                   lift (new_Response_init (Json sessionData) None
                           [(''Access-Control-Allow-Origin'', or_else origin ''*''),
                            (''Content-Type'', ''application/json'')]))))))"

definition checkUserQuery :: string where
  "checkUserQuery = ''SELECT Username FROM User WHERE Username = ?''"

definition insertUserQuery :: string where
  "insertUserQuery =
     ''INSERT INTO User (Username, Password, FirstName, LastName) VALUES (?, ?, ?, ?)''"

definition handleRegister :: "'w Env \<Rightarrow> request \<Rightarrow> ('w, response) prog" where
  "handleRegister env request =
     try_catch
       (bind (lift (json request)) (\<lambda>regData.
        bind (lift (get_prop regData ''username'')) (\<lambda>username.
        bind (lift (get_prop regData ''password'')) (\<lambda>password.
        bind (lift (get_prop regData ''firstName'')) (\<lambda>firstName.
        bind (lift (get_prop regData ''lastName'')) (\<lambda>lastName.
        if \<not> truthy username \<or> \<not> truthy password then
          ret (new_Response (error_body ''Missing required fields'') (Some 400) Map.empty)
        else
          bind (db_all env checkUserQuery [username]) (\<lambda>existingUser.
          if success existingUser \<and> length (results existingUser) > 0 then
            ret (new_Response (error_body ''User already exists'') (Some 409) Map.empty)
          else
            bind (hashPassword env password) (\<lambda>hashedPassword.
            bind (db_run env insertUserQuery
                    [username, JStr hashedPassword, firstName, lastName]) (\<lambda>_.
            ret (new_Response (message_body ''User registered successfully'')
                   (Some 201) Map.empty))))))))))
       (\<lambda>error. ret (new_Response (error_body ''Internal server error'') (Some 500) Map.empty))"

definition loginQuery :: string where
  "loginQuery = ''SELECT * FROM User WHERE Username = ?1''"

definition sessionCookie_of :: "string \<Rightarrow> string" where
  "sessionCookie_of sessionId =
     ''cfw_session='' @ sessionId @ ''; Secure; Path=/; SameSite=None; Max-Age=''
       @ toString_radix 10 (60 * 30)"

text \<open>
  The body of the \<^verbatim>\<open>try\<close> block of \<^verbatim>\<open>handleLogin\<close>: \<open>Some\<close> response where it
  returns, \<open>None\<close> where control falls out of the block to the last \<^verbatim>\<open>return\<close>.
\<close>

definition login_attempt :: "'w Env \<Rightarrow> request \<Rightarrow> jsval \<Rightarrow> jsval \<Rightarrow> ('w, response option) prog" where
  "login_attempt env request username password =
     (if truthy username \<and> truthy password then
        bind (db_all env loginQuery [username]) (\<lambda>res.
        let result = results res in
        case result of
          [] \<Rightarrow> ret None
        | user # _ \<Rightarrow>
            bind (lift (get_prop user ''Password'')) (\<lambda>storedHash.
            bind (lift (comparePassword env password storedHash)) (\<lambda>passwordMatch.
            if \<not> passwordMatch then
              ret (Some (new_Response (error_body ''Invalid credentials'') (Some 401) Map.empty))
            else
              bind (lift (get_prop user ''Username'')) (\<lambda>uname.
              bind (lift (get_prop user ''FirstName'')) (\<lambda>fname.
              bind (lift (get_prop user ''LastName'')) (\<lambda>lname.
              let sessionData = JObj [(''username'', uname), (''firstName'', fname),
                                      (''lastName'', lname)];
                  sessionCreationRequest =
                    \<lparr>sr_url = ''https://session-state.d1.compact.workers.dev/create'',
                     sr_method = ''POST'',
                     sr_headers = [(''Content-Type'', ''application/json'')],
                     sr_body = Json sessionData\<rparr>
              in bind (service_fetch env sessionCreationRequest) (\<lambda>sessionResponse.
                 bind (lift (text_of sessionResponse)) (\<lambda>sessionId.
                 bind (lift (getValidatedOrigin env request)) (\<lambda>origin.
                 bind (lift (new_Headers
                        [(''Access-Control-Allow-Origin'', or_else origin ''*''),
                         (''Content-Type'', ''application/json''),
                         (''Set-Cookie'', sessionCookie_of sessionId)])) (\<lambda>headers.
                 ret (Some (new_Response (message_body ''Login successful'') None
                              headers))))))))))))
      else ret None)"

definition handleLogin :: "'w Env \<Rightarrow> request \<Rightarrow> ('w, response) prog" where
  "handleLogin env request =
     bind (lift (json request)) (\<lambda>credentials.
     bind (lift (get_prop credentials ''username'')) (\<lambda>username.
     bind (lift (get_prop credentials ''password'')) (\<lambda>password.
     bind (try_catch (login_attempt env request username password)
             (\<lambda>error. bind (console_error error) (\<lambda>_. ret None))) (\<lambda>returned.
     case returned of
       Some response \<Rightarrow> ret response
     | None \<Rightarrow> ret (new_Response (error_body ''Login failed'') (Some 401) Map.empty)))))"

definition handleLogout :: "'w Env \<Rightarrow> request \<Rightarrow> ('w, response) prog" where
  "handleLogout env request =
     (let cookieHeader = headers_get (headers request) ''Cookie'';
          sessionId = sessionId_of_cookie cookieHeader
      in bind (case sessionId of
                 None \<Rightarrow> ret ()
               | Some sid \<Rightarrow>
                   if sid = [] then ret ()
                   else
                     (let deleteSessionUrl =
                            ''https://session-state.d1.compact.workers.dev/delete/'' @ sid;
                          deleteRequest = \<lparr>sr_url = deleteSessionUrl, sr_method = ''DELETE'',
                                           sr_headers = [], sr_body = NoBody\<rparr>
                      in bind (service_fetch env deleteRequest) (\<lambda>_. ret ()))) (\<lambda>_.
         bind (lift (new_Headers
                [(''Set-Cookie'',
                  ''cfw_session=; HttpOnly; Secure; SameSite=Strict; Max-Age=0'')])) (\<lambda>headers.
         ret (new_Response (message_body ''Logout successful'') None headers))))"

definition handleForgotPassword :: "'w Env \<Rightarrow> request \<Rightarrow> ('w, response) prog" where
  "handleForgotPassword env request =
     bind (lift (json request)) (\<lambda>data.
     bind (lift (get_prop data ''email'')) (\<lambda>email.
     ret (new_Response (message_body ''Password reset initiated'') None Map.empty)))"

section \<open>The entry point\<close>

definition fetch :: "'w Env \<Rightarrow> request \<Rightarrow> ('w, response) prog" where
  "fetch env request =
     bind (lift (new_URL env (url request))) (\<lambda>u.
     let path = pathname u in
     bind (if method request = ''OPTIONS'' then lift (handleOptions env request)
           else if path = ''/register'' then handleRegister env request
           else if path = ''/login'' then handleLogin env request
           else if path = ''/logout'' then handleLogout env request
           else if path = ''/forgot-password'' then handleForgotPassword env request
           else if path = ''/load-user'' then handleLoadUser env request
           else ret (new_Response (Text ''Not Found'') (Some 404) Map.empty)) (\<lambda>response.
     bind (lift (getValidatedOrigin env request)) (\<lambda>origin.
     bind (lift (headers_set (resp_headers response)
                   ''Access-Control-Allow-Origin'' (or_else origin ''*''))) (\<lambda>h1.
     bind (lift (headers_set h1
                   ''Access-Control-Allow-Methods'' ''GET, POST, PUT, DELETE, OPTIONS'')) (\<lambda>h2.
     bind (lift (headers_set h2 ''Access-Control-Allow-Credentials'' ''true'')) (\<lambda>h3.
     ret (response\<lparr>resp_headers := h3\<rparr>)))))))"

section \<open>The cookie decoding as the specification words it\<close>

text \<open>
  These definitions follow the specification, not the code: an entry of the cookie
  header has a name, the text before its first \<^verbatim>\<open>=\<close>, and the decoding locates the
  entry whose name is \<^verbatim>\<open>cfw_session\<close>. \<open>cookie_decode_spec\<close> takes as session id the
  entire text after the first \<^verbatim>\<open>=\<close> of that entry, as the specification says;
  \<open>cookie_decode_amended\<close> stops that text at the next \<^verbatim>\<open>=\<close>, if there is one.
\<close>

definition entry_name :: "string \<Rightarrow> string" where
  "entry_name e = takeWhile (\<lambda>c. c \<noteq> CHR ''='') e"

definition text_after_first_equals :: "string \<Rightarrow> string" where
  "text_after_first_equals e = drop 1 (dropWhile (\<lambda>c. c \<noteq> CHR ''='') e)"

definition is_entry_named :: "string \<Rightarrow> string \<Rightarrow> bool" where
  "is_entry_named n e \<longleftrightarrow> CHR ''='' \<in> set e \<and> entry_name e = n"

definition cookie_decode_spec :: "string option \<Rightarrow> string option" where
  "cookie_decode_spec cookieHeader =
     (case cookieHeader of
        None \<Rightarrow> None
      | Some c \<Rightarrow>
          (case find (is_entry_named ''cfw_session'') (map trim (split_js (CHR '';'') c)) of
             None \<Rightarrow> None
           | Some e \<Rightarrow> Some (text_after_first_equals e)))"

definition cookie_decode_amended :: "string option \<Rightarrow> string option" where
  "cookie_decode_amended cookieHeader =
     (case cookieHeader of
        None \<Rightarrow> None
      | Some c \<Rightarrow>
          (case find (is_entry_named ''cfw_session'') (map trim (split_js (CHR '';'') c)) of
             None \<Rightarrow> None
           | Some e \<Rightarrow>
               Some (takeWhile (\<lambda>c. c \<noteq> CHR ''='') (text_after_first_equals e))))"

section \<open>A sample deployment\<close>

text \<open>
  One concrete environment, to run the handlers on: a user table with the single user
  \<^verbatim>\<open>alice\<close> (password \<^verbatim>\<open>pw\<close>, stored as \<^verbatim>\<open>hashPassword\<close> computes it here), a session
  service that answers every call with the id \<^verbatim>\<open>s-42\<close>, a random source that draws
  sevens, and a toy digest (the last four bytes of its input, last first). Its URL parser knows the six addresses
  listed and rejects every other string, as \<^verbatim>\<open>new URL\<close> rejects \<^verbatim>\<open>null\<close> or
  \<^verbatim>\<open>not a url\<close>.
\<close>

definition example_urls :: "(string \<times> url_record) list" where
  "example_urls =
     [(''https://worker.example/register'', \<lparr>protocol = ''https:'', pathname = ''/register''\<rparr>),
      (''https://worker.example/login'', \<lparr>protocol = ''https:'', pathname = ''/login''\<rparr>),
      (''https://worker.example/logout'', \<lparr>protocol = ''https:'', pathname = ''/logout''\<rparr>),
      (''https://worker.example/missing'', \<lparr>protocol = ''https:'', pathname = ''/missing''\<rparr>),
      (''https://app.example'', \<lparr>protocol = ''https:'', pathname = ''/''\<rparr>),
      (''ftp://files.example'', \<lparr>protocol = ''ftp:'', pathname = ''/''\<rparr>)]"

definition example_row :: jsval where
  "example_row =
     JObj [(''Username'', JStr ''alice''), (''Password'', JStr ''7777777777777777:77703737''),
           (''FirstName'', JStr ''Alice''), (''LastName'', JStr ''Liddell'')]"

definition example_env :: "unit Env" where
  "example_env =
     \<lparr>usersDB_all = (\<lambda>q args w.
        (Inr \<lparr>success = True,
              results = (if args = [JStr ''alice''] then [example_row] else [])\<rparr>, w)),
      usersDB_run = (\<lambda>q args w. (Inr (), w)),
      sessionService_fetch = (\<lambda>rq w.
        (Inr \<lparr>text_of = Inr ''s-42'', json_of = Inl SyntaxError\<rparr>, w)),
      crypto_getRandomValues = (\<lambda>n w. (replicate n 7, w)),
      crypto_digest = (\<lambda>algo bs. take 4 (rev bs)),
      TextEncoder_encode = map (\<lambda>c. of_nat (of_char c)),
      URL_parse = map_of example_urls\<rparr>"

text \<open>The same deployment with the session service out of reach: every call to it throws.\<close>

definition example_env_service_down :: "unit Env" where
  "example_env_service_down =
     example_env\<lparr>sessionService_fetch := (\<lambda>rq w. (Inl (Thrown ''unreachable''), w))\<rparr>"

text \<open>The same deployment with a session service whose answer holds a line feed.\<close>

definition example_env_line_feed :: "unit Env" where
  "example_env_line_feed =
     example_env\<lparr>sessionService_fetch := (\<lambda>rq w.
        (Inr \<lparr>text_of = Inr (''s-42'' @ [CHR 0x0A]), json_of = Inl SyntaxError\<rparr>, w))\<rparr>"

definition example_request ::
  "string \<Rightarrow> (string \<times> string) list \<Rightarrow> exn + jsval \<Rightarrow> request" where
  "example_request u hs b = \<lparr>method = ''POST'', url = u, headers = delivered_headers hs, json = b\<rparr>"

definition s0 :: "unit sys" where
  "s0 = \<lparr>world = (), trace = []\<rparr>"

section \<open>Hashing a password and verifying it\<close>

lemma digit_char_not_colon: "d < 36 \<Longrightarrow> digit_char d \<noteq> CHR '':''"
proof -
  assume "d < 36"
  then have "digit_char d \<in> set ''0123456789abcdefghijklmnopqrstuvwxyz''"
    unfolding digit_char_def by (intro nth_mem) simp
  then show ?thesis by auto
qed

lemma toString_radix_no_colon:
  "2 \<le> r \<Longrightarrow> r \<le> 36 \<Longrightarrow> CHR '':'' \<notin> set (toString_radix r n)"
proof (induction r n rule: toString_radix.induct)
  case (1 r n)
  show ?case
  proof (cases "n < r")
    case True
    with 1 have "n < 36" by simp
    with True show ?thesis
      by (subst toString_radix.simps) (simp add: digit_char_not_colon [THEN not_sym])
  next
    case False
    with 1 have ih: "CHR '':'' \<notin> set (toString_radix r (n div r))" by simp
    from 1(2) have "n mod r < r" by simp
    with 1(3) have "n mod r < 36" by linarith
    with False 1 ih show ?thesis
      by (subst toString_radix.simps) (simp add: digit_char_not_colon [THEN not_sym])
  qed
qed

lemma join_js_empty_sep: "join_js [] xs = concat xs"
proof (induction xs)
  case Nil
  show ?case by simp
next
  case (Cons x xs)
  then show ?case by (cases xs) simp_all
qed

lemma salt_of_no_colon: "CHR '':'' \<notin> set (salt_of bytes)"
  by (simp add: salt_of_def join_js_empty_sep toString_radix_no_colon)

lemma hashHex_of_no_colon: "CHR '':'' \<notin> set (hashHex_of bs)"
  by (auto simp: hashHex_of_def join_js_empty_sep padStart_def toString_radix_no_colon)

lemma split_js_no_sep: "sep \<notin> set a \<Longrightarrow> split_js sep a = [a]"
  by (induction a) auto

lemma split_js_at_sep: "sep \<notin> set a \<Longrightarrow> split_js sep (a @ sep # b) = a # split_js sep b"
  by (induction a) auto

lemma split_stored_hash:
  "split_js (CHR '':'') (salt_of bytes @ '':'' @ hashHex_of bs) = [salt_of bytes, hashHex_of bs]"
  using split_js_at_sep [OF salt_of_no_colon, of bytes "hashHex_of bs"]
  by (simp add: split_js_no_sep hashHex_of_no_colon)

text \<open>
  Claim C1. Whatever bytes the random source draws for the salt, and whatever the
  encoder and the digest compute, \<^verbatim>\<open>hashPassword(P)\<close> returns a string, and
  \<^verbatim>\<open>comparePassword(P, hashPassword(P))\<close> is \<^verbatim>\<open>true\<close>: the salt is made of decimal
  digits and the digest of hexadecimal digits, so the only colon of the stored string
  is the one between them, and \<^verbatim>\<open>split(':')\<close> gives back exactly the salt and the
  digest.
\<close>

theorem hash_then_compare:
  "\<exists>stored s'. hashPassword env (JStr P) s = (Inr stored, s') \<and>
     comparePassword env (JStr P) (JStr stored) = Inr True"
proof -
  obtain bytes w where draw: "crypto_getRandomValues env 16 (world s) = (bytes, w)"
    by (cases "crypto_getRandomValues env 16 (world s)")
  define hex where
    "hex = hashHex_of (crypto_digest env hashingAlgo
                        (TextEncoder_encode env (salt_of bytes @ P)))"
  have run: "hashPassword env (JStr P) s =
      (Inr (salt_of bytes @ '':'' @ hex), record_call (RandomValues 16) w s)"
    by (simp add: hashPassword_def bind_def random_values_def lift_def ret_def js_concat_def
          draw hex_def Let_def)
  have parts: "split_js (CHR '':'') (salt_of bytes @ '':'' @ hex) = [salt_of bytes, hex]"
    unfolding hex_def by (rule split_stored_hash)
  have "comparePassword env (JStr P) (JStr (salt_of bytes @ '':'' @ hex)) = Inr True"
    unfolding comparePassword_def
    by (simp only: jsval.case parts Let_def)
       (simp add: at_js_def of_string_option_def js_concat_def hex_def)
  with run show ?thesis by blast
qed

section \<open>Running a handler\<close>

lemma ret_apply: "ret x s = (Inr x, s)"
  by (simp add: ret_def)

lemma lift_apply: "lift r s = (r, s)"
  by (simp add: lift_def)

lemma bind_apply:
  "bind m f s = (case m s of (Inl e, s') \<Rightarrow> (Inl e, s') | (Inr x, s') \<Rightarrow> f x s')"
  by (simp add: bind_def)

lemma try_catch_apply:
  "try_catch m h s = (case m s of (Inl e, s') \<Rightarrow> h e s' | (Inr x, s') \<Rightarrow> (Inr x, s'))"
  by (simp add: try_catch_def)

lemmas prog_simps = ret_apply lift_apply bind_apply try_catch_apply

lemma db_all_apply:
  "usersDB_all env q args (world s) = (r, w) \<Longrightarrow>
   db_all env q args s = (r, \<lparr>world = w, trace = trace s @ [DbAll q args]\<rparr>)"
  by (simp add: db_all_def record_call_def)

lemma service_fetch_apply:
  "sessionService_fetch env rq (world s) = (r, w) \<Longrightarrow>
   service_fetch env rq s = (r, \<lparr>world = w, trace = trace s @ [ServiceFetch rq]\<rparr>)"
  by (simp add: service_fetch_def record_call_def)

lemma status_new_Response: "status (new_Response b (Some n) h) = n"
  "status (new_Response b None h) = 200"
  "resp_body (new_Response b st h) = b"
  by (simp_all add: new_Response_def)

lemma resp_headers_new_Response:
  "resp_headers (new_Response b st h) =
     (if b \<noteq> NoBody \<and> h ''content-type'' = None
      then h(''content-type'' \<mapsto> ''text/plain;charset=UTF-8'') else h)"
  by (simp add: new_Response_def)

lemma example_simps:
  "usersDB_all example_env = (\<lambda>q args w.
        (Inr \<lparr>success = True,
              results = (if args = [JStr ''alice''] then [example_row] else [])\<rparr>, w))"
  "usersDB_run example_env = (\<lambda>q args w. (Inr (), w))"
  "sessionService_fetch example_env = (\<lambda>rq w.
        (Inr \<lparr>text_of = Inr ''s-42'', json_of = Inl SyntaxError\<rparr>, w))"
  "crypto_getRandomValues example_env = (\<lambda>n w. (replicate n 7, w))"
  "crypto_digest example_env = (\<lambda>algo bs. take 4 (rev bs))"
  "TextEncoder_encode example_env = map (\<lambda>c. of_nat (of_char c))"
  "URL_parse example_env = map_of example_urls"
  by (simp_all add: example_env_def)

lemma toString_radix_1800: "toString_radix 10 1800 = ''1800''"
proof -
  have "toString_radix 10 1 = ''1''"
    by (subst toString_radix.simps) (simp add: digit_char_def)
  then have "toString_radix 10 18 = ''18''"
    by (subst toString_radix.simps) (simp add: digit_char_def)
  then have "toString_radix 10 180 = ''180''"
    by (subst toString_radix.simps) (simp add: digit_char_def)
  then show ?thesis
    by (subst toString_radix.simps) (simp add: digit_char_def)
qed

lemma sessionCookie_of_eq:
  "sessionCookie_of sid = ''cfw_session='' @ sid @ ''; Secure; Path=/; SameSite=None; Max-Age=1800''"
  by (simp add: sessionCookie_of_def toString_radix_1800)

lemma dropWhile_hd: "xs \<noteq> [] \<Longrightarrow> \<not> P (hd xs) \<Longrightarrow> dropWhile P xs = xs"
  by (cases xs) simp_all

lemma normalize_value_ends:
  assumes "v \<noteq> []" and "\<not> is_http_whitespace (hd v)" and "\<not> is_http_whitespace (last v)"
  shows "normalize_value v = v"
proof -
  from assms(1,2) have "dropWhile is_http_whitespace v = v"
    by (rule dropWhile_hd)
  moreover from assms(1,3) have "dropWhile is_http_whitespace (rev v) = rev v"
    by (intro dropWhile_hd) (simp_all add: hd_rev)
  ultimately show ?thesis
    by (simp add: normalize_value_def)
qed

lemma headers_set_value:
  "is_header_value v \<Longrightarrow> headers_set h n v = Inr (h(toLowerCase n \<mapsto> v))"
  by (simp add: headers_set_def is_header_value_def)

lemma or_else_header_value:
  assumes "\<And>v. x = Some v \<Longrightarrow> is_header_value v" and "is_header_value d"
  shows "is_header_value (or_else x d)"
  using assms by (cases x) (simp_all add: or_else_def)

lemma constant_header_values:
  "is_header_value []"
  "is_header_value ''*''"
  "is_header_value ''true''"
  "is_header_value ''86400''"
  "is_header_value ''nosniff''"
  "is_header_value ''text/plain''"
  "is_header_value ''application/json''"
  "is_header_value ''GET,HEAD,POST,OPTIONS''"
  "is_header_value ''GET, HEAD, POST, OPTIONS''"
  "is_header_value ''GET, POST, PUT, DELETE, OPTIONS''"
  "is_header_value ''cfw_session=; HttpOnly; Secure; SameSite=Strict; Max-Age=0''"
  by (simp_all add: is_header_value_def normalize_value_def is_http_whitespace_def
        has_forbidden_byte_def)

lemma sessionCookie_header_value:
  assumes "\<not> has_forbidden_byte sessionId"
  shows "is_header_value (sessionCookie_of sessionId)"
proof -
  let ?v = "''cfw_session='' @ sessionId @ ''; Secure; Path=/; SameSite=None; Max-Age=1800''"
  have "normalize_value ?v = ?v"
    by (rule normalize_value_ends) (simp_all add: is_http_whitespace_def)
  moreover from assms have "\<not> has_forbidden_byte ?v"
    by (simp add: has_forbidden_byte_def)
  ultimately show ?thesis
    by (simp add: is_header_value_def sessionCookie_of_eq)
qed

lemma lower_names:
  "toLowerCase ''Access-Control-Allow-Origin'' = ''access-control-allow-origin''"
  "toLowerCase ''Access-Control-Allow-Methods'' = ''access-control-allow-methods''"
  "toLowerCase ''Access-Control-Allow-Credentials'' = ''access-control-allow-credentials''"
  "toLowerCase ''Content-Type'' = ''content-type''"
  "toLowerCase ''Set-Cookie'' = ''set-cookie''"
  "toLowerCase ''Cookie'' = ''cookie''"
  "toLowerCase ''Origin'' = ''origin''"
  by (simp_all add: toLowerCase_def lower_ascii_def)

lemma example_headers_get_Origin:
  "headers_get (headers (example_request u [(''Origin'', v)] b)) ''Origin'' = Some v"
  by (simp add: example_request_def delivered_headers_def headers_get_def lower_names)

lemma example_cookie:
  "sessionId_of_cookie (Some ''cfw_session=s-42'') = Some ''s-42''"
  by (simp add: sessionId_of_cookie_def trim_def is_whitespace_def startsWith_def at_js_def)

lemma example_headers_get_Cookie:
  "headers_get (headers (example_request u [(''Cookie'', v)] b)) ''Cookie'' = Some v"
  by (simp add: example_request_def delivered_headers_def headers_get_def lower_names)

lemma example_hash:
  "hashPassword example_env (JStr ''pw'') s0 =
     (Inr ''7777777777777777:77703737'', \<lparr>world = (), trace = [RandomValues 16]\<rparr>)"
  by code_simp

lemma example_compare:
  "comparePassword example_env (JStr ''pw'') (JStr ''7777777777777777:77703737'') = Inr True"
  by code_simp

lemma example_compare_other:
  "comparePassword example_env (JStr ''pq'') (JStr ''7777777777777777:77703737'') = Inr False"
  by code_simp

lemma validated_origin_is_header:
  "getValidatedOrigin env request = Inr (Some v) \<Longrightarrow>
   headers_get (headers request) ''Origin'' = Some v"
  by (auto simp add: getValidatedOrigin_def split: option.splits sum.splits if_splits)

lemma or_else_origin_header_value:
  assumes "getValidatedOrigin env request = Inr origin"
    and "\<And>v. headers_get (headers request) ''Origin'' = Some v \<Longrightarrow> is_header_value v"
  shows "is_header_value (or_else origin ''*'')"
proof (rule or_else_header_value)
  fix v
  assume "origin = Some v"
  with assms(1) have "headers_get (headers request) ''Origin'' = Some v"
    by (simp add: validated_origin_is_header)
  then show "is_header_value v"
    by (rule assms(2))
qed (rule constant_header_values)

section \<open>Login\<close>

text \<open>
  Once the body has been parsed and destructured, \<^verbatim>\<open>handleLogin\<close> always returns a
  response: whatever is thrown inside its \<^verbatim>\<open>try\<close> block is caught and answered with
  the final 401. The parsing and the destructuring stand before the \<^verbatim>\<open>try\<close>.
\<close>

lemma handleLogin_returns_when_parsed:
  assumes "json request = Inr credentials"
    and "get_prop credentials ''username'' = Inr username"
    and "get_prop credentials ''password'' = Inr password"
  shows "\<exists>resp s'. handleLogin env request s = (Inr resp, s')"
  by (auto simp add: handleLogin_def prog_simps assms console_error_def
      split: prod.splits sum.splits option.splits)

lemma handleLogin_unparsable:
  "json request = Inl e \<Longrightarrow> handleLogin env request s = (Inl e, s)"
  by (simp add: handleLogin_def prog_simps)

text \<open>
  Claim C2. Every exception of the login flow, the failure to parse the request body as
  JSON included, should be caught inside \<^verbatim>\<open>handleLogin\<close> and answered with 401
  \<^verbatim>\<open>{error: 'Login failed'}\<close>. The code does not do that for the body: on a body that
  is not JSON, \<^verbatim>\<open>await request.json()\<close> throws before the \<^verbatim>\<open>try\<close> block is entered
  and \<^verbatim>\<open>handleLogin\<close> throws the \<^verbatim>\<open>SyntaxError\<close> to its caller; on the body
  \<^verbatim>\<open>null\<close> the destructuring throws a \<^verbatim>\<open>TypeError\<close> the same way. No call leaves
  the worker in either run.
\<close>

theorem login_unparsable_body_throws:
  "handleLogin example_env
     (example_request ''https://worker.example/login'' [] (Inl SyntaxError)) s0 =
     (Inl SyntaxError, s0) \<and>
   handleLogin example_env
     (example_request ''https://worker.example/login'' [] (Inr JNull)) s0 =
     (Inl TypeError, s0)"
  by (simp add: handleLogin_def prog_simps example_request_def)

text \<open>
  Claim C9, amended. A login whose credentials match a stored record (the query returns
  a row and \<^verbatim>\<open>comparePassword\<close> is true of its \<^verbatim>\<open>Password\<close>), for which the session
  service answers with a text \<open>sessionId\<close> that holds no NUL, carriage return or line
  feed (so that the cookie is a legal header value), and whose \<^verbatim>\<open>Origin\<close> header is
  absent or is a header value that parses as a URL (the validator returns, it does not
  throw), returns 200 with
  \<^verbatim>\<open>Set-Cookie: cfw_session=<sessionId>; Secure; Path=/; SameSite=None; Max-Age=1800\<close>.
  The value of the cookie is the text of the session service as it is, so it is
  non-empty exactly when that text is.
\<close>

theorem login_success_cookie:
  assumes "json request = Inr credentials"
    and "get_prop credentials ''username'' = Inr username"
    and "get_prop credentials ''password'' = Inr password"
    and "truthy username" and "truthy password"
    and "usersDB_all env loginQuery [username] (world s) = (Inr res, w1)"
    and "results res = user # others"
    and "get_prop user ''Password'' = Inr storedHash"
    and "comparePassword env password storedHash = Inr True"
    and "get_prop user ''Username'' = Inr uname"
    and "get_prop user ''FirstName'' = Inr fname"
    and "get_prop user ''LastName'' = Inr lname"
    and "sessionService_fetch env
           \<lparr>sr_url = ''https://session-state.d1.compact.workers.dev/create'',
            sr_method = ''POST'',
            sr_headers = [(''Content-Type'', ''application/json'')],
            sr_body = Json (JObj [(''username'', uname), (''firstName'', fname),
                                  (''lastName'', lname)])\<rparr> w1 = (Inr sessionResponse, w2)"
    and "text_of sessionResponse = Inr sessionId"
    and "\<not> has_forbidden_byte sessionId"
    and "getValidatedOrigin env request = Inr origin"
    and "\<And>v. headers_get (headers request) ''Origin'' = Some v \<Longrightarrow> is_header_value v"
  shows "\<exists>resp s'. handleLogin env request s = (Inr resp, s') \<and> status resp = 200 \<and>
           resp_body resp = Json (JObj [(''message'', JStr ''Login successful'')]) \<and>
           headers_get (resp_headers resp) ''Set-Cookie'' =
             Some (''cfw_session='' @ sessionId @
                   ''; Secure; Path=/; SameSite=None; Max-Age=1800'')"
proof -
  let ?s1 = "\<lparr>world = w1, trace = trace s @ [DbAll loginQuery [username]]\<rparr>"
  let ?rq = "\<lparr>sr_url = ''https://session-state.d1.compact.workers.dev/create'',
            sr_method = ''POST'',
            sr_headers = [(''Content-Type'', ''application/json'')],
            sr_body = Json (JObj [(''username'', uname), (''firstName'', fname),
                                  (''lastName'', lname)])\<rparr>"
  let ?h = "[''access-control-allow-origin'' \<mapsto> or_else origin ''*'',
             ''content-type'' \<mapsto> ''application/json'',
             ''set-cookie'' \<mapsto> sessionCookie_of sessionId]"
  have q: "db_all env loginQuery [username] s = (Inr res, ?s1)"
    by (rule db_all_apply [OF assms(6)])
  have f: "service_fetch env ?rq ?s1 =
             (Inr sessionResponse, \<lparr>world = w2, trace = trace ?s1 @ [ServiceFetch ?rq]\<rparr>)"
    by (rule service_fetch_apply) (simp add: assms(13))
  have "is_header_value (or_else origin ''*'')"
    by (rule or_else_origin_header_value [OF assms(16,17)])
  then have hs: "new_Headers
      [(''Access-Control-Allow-Origin'', or_else origin ''*''),
       (''Content-Type'', ''application/json''),
       (''Set-Cookie'', sessionCookie_of sessionId)] = Inr ?h"
    by (simp add: new_Headers_def headers_set_value constant_header_values
          sessionCookie_header_value [OF assms(15)] lower_names)
  have attempt: "login_attempt env request username password s =
     (Inr (Some (new_Response (message_body ''Login successful'') None ?h)),
      \<lparr>world = w2, trace = trace ?s1 @ [ServiceFetch ?rq]\<rparr>)"
    using assms(4,5)
    by (simp add: login_attempt_def prog_simps q assms(7-12) assms(14,16) f hs Let_def)
  have "handleLogin env request s =
     (Inr (new_Response (message_body ''Login successful'') None ?h),
      \<lparr>world = w2, trace = trace ?s1 @ [ServiceFetch ?rq]\<rparr>)"
    by (simp add: handleLogin_def prog_simps assms(1-3) attempt)
  then show ?thesis
    by (simp add: status_new_Response message_body_def resp_headers_new_Response lower_names
          headers_get_def sessionCookie_of_eq)
qed

text \<open>The user \<^verbatim>\<open>alice\<close> of the sample deployment logs in with her password, from
  an origin that parses as a URL.\<close>

theorem login_success_cookie_witness:
  "comparePassword example_env (JStr ''pw'') (JStr ''7777777777777777:77703737'') = Inr True \<and>
   \<not> has_forbidden_byte ''s-42'' \<and>
   is_header_value ''https://app.example'' \<and>
   getValidatedOrigin example_env
     (example_request ''https://worker.example/login'' [(''Origin'', ''https://app.example'')]
        (Inr (JObj [(''username'', JStr ''alice''), (''password'', JStr ''pw'')]))) =
     Inr (Some ''https://app.example'') \<and>
   (\<exists>resp s'. handleLogin example_env
        (example_request ''https://worker.example/login''
           [(''Origin'', ''https://app.example'')]
           (Inr (JObj [(''username'', JStr ''alice''), (''password'', JStr ''pw'')]))) s0 =
        (Inr resp, s') \<and>
      status resp = 200 \<and>
      headers_get (resp_headers resp) ''Set-Cookie'' =
        Some ''cfw_session=s-42; Secure; Path=/; SameSite=None; Max-Age=1800'')"
proof -
  let ?body = "JObj [(''username'', JStr ''alice''), (''password'', JStr ''pw'')]"
  let ?req = "example_request ''https://worker.example/login''
           [(''Origin'', ''https://app.example'')] (Inr ?body)"
  have origin: "getValidatedOrigin example_env ?req = Inr (Some ''https://app.example'')"
    by (simp add: getValidatedOrigin_def new_URL_def example_headers_get_Origin example_simps
          example_urls_def)
  have id: "\<not> has_forbidden_byte ''s-42''"
    by (simp add: has_forbidden_byte_def)
  have hv: "is_header_value ''https://app.example''"
    by (simp add: is_header_value_def normalize_value_def is_http_whitespace_def
          has_forbidden_byte_def)
  have "\<exists>resp s'. handleLogin example_env ?req s0 = (Inr resp, s') \<and> status resp = 200 \<and>
           resp_body resp = Json (JObj [(''message'', JStr ''Login successful'')]) \<and>
           headers_get (resp_headers resp) ''Set-Cookie'' =
             Some (''cfw_session='' @ ''s-42'' @
                   ''; Secure; Path=/; SameSite=None; Max-Age=1800'')"
  proof (rule login_success_cookie
      [where credentials = ?body and username = "JStr ''alice''" and password = "JStr ''pw''"
         and res = "\<lparr>success = True, results = [example_row]\<rparr>" and ?w1.0 = "()"
         and user = example_row and others = "[]"
         and storedHash = "JStr ''7777777777777777:77703737''"
         and uname = "JStr ''alice''" and fname = "JStr ''Alice''"
         and lname = "JStr ''Liddell''"
         and sessionResponse = "\<lparr>text_of = Inr ''s-42'', json_of = Inl SyntaxError\<rparr>"
         and ?w2.0 = "()" and origin = "Some ''https://app.example''"])
    show "comparePassword example_env (JStr ''pw'') (JStr ''7777777777777777:77703737'') =
        Inr True"
      by (rule example_compare)
    show "getValidatedOrigin example_env ?req = Inr (Some ''https://app.example'')"
      by (rule origin)
    show "\<not> has_forbidden_byte ''s-42''"
      by (rule id)
    show "is_header_value v" if "headers_get (headers ?req) ''Origin'' = Some v" for v
      using that hv by (simp add: example_headers_get_Origin)
  qed (simp_all add: example_request_def example_simps example_row_def)
  with example_compare origin id hv show ?thesis
    by auto
qed

text \<open>
  The same login with the header \<^verbatim>\<open>Origin: null\<close>: the password matches and the session
  is created, then \<^verbatim>\<open>getValidatedOrigin\<close> throws inside the \<^verbatim>\<open>try\<close> block, and the
  answer is 401 \<^verbatim>\<open>Login failed\<close> without a cookie.
\<close>

theorem login_bad_origin_counterexample:
  "comparePassword example_env (JStr ''pw'') (JStr ''7777777777777777:77703737'') = Inr True \<and>
   (\<exists>resp s'. handleLogin example_env
        (example_request ''https://worker.example/login'' [(''Origin'', ''null'')]
           (Inr (JObj [(''username'', JStr ''alice''), (''password'', JStr ''pw'')]))) s0 =
        (Inr resp, s') \<and>
      status resp = 401 \<and>
      resp_body resp = Json (JObj [(''error'', JStr ''Login failed'')]) \<and>
      headers_get (resp_headers resp) ''Set-Cookie'' = None)"
proof -
  let ?body = "JObj [(''username'', JStr ''alice''), (''password'', JStr ''pw'')]"
  let ?req = "example_request ''https://worker.example/login'' [(''Origin'', ''null'')] (Inr ?body)"
  have origin: "getValidatedOrigin example_env ?req = Inl TypeError"
    by (simp add: getValidatedOrigin_def new_URL_def example_headers_get_Origin example_simps
          example_urls_def)
  have js: "json ?req = Inr ?body"
    by (simp add: example_request_def)
  have "\<exists>s'. login_attempt example_env ?req (JStr ''alice'') (JStr ''pw'') s0 = (Inl TypeError, s')"
    by (simp add: login_attempt_def prog_simps db_all_def service_fetch_def record_call_def
          example_simps example_row_def example_compare [unfolded example_simps] origin Let_def)
  then have "\<exists>s'. handleLogin example_env ?req s0 =
      (Inr (new_Response (error_body ''Login failed'') (Some 401) Map.empty), s')"
    by (auto simp add: handleLogin_def prog_simps js console_error_def)
  then show ?thesis
    by (auto simp add: example_compare new_Response_def error_body_def headers_get_def
          lower_names)
qed

text \<open>
  A session text that is not legal in a header value: with the line feed in it the
  constructor of \<^verbatim>\<open>Headers\<close> throws inside the \<^verbatim>\<open>try\<close> block, after the session has
  been created, and the login with the right password is answered 401.
\<close>

lemma login_line_feed_in_session_id:
  "\<exists>resp s'. handleLogin example_env_line_feed
        (example_request ''https://worker.example/login''
           [(''Origin'', ''https://app.example'')]
           (Inr (JObj [(''username'', JStr ''alice''), (''password'', JStr ''pw'')]))) s0 =
        (Inr resp, s') \<and>
      status resp = 401 \<and>
      resp_body resp = Json (JObj [(''error'', JStr ''Login failed'')]) \<and>
      headers_get (resp_headers resp) ''Set-Cookie'' = None"
proof -
  let ?body = "JObj [(''username'', JStr ''alice''), (''password'', JStr ''pw'')]"
  let ?req = "example_request ''https://worker.example/login''
           [(''Origin'', ''https://app.example'')] (Inr ?body)"
  have env:
    "usersDB_all example_env_line_feed = usersDB_all example_env"
    "URL_parse example_env_line_feed = URL_parse example_env"
    "sessionService_fetch example_env_line_feed = (\<lambda>rq w.
        (Inr \<lparr>text_of = Inr (''s-42'' @ [CHR 0x0A]), json_of = Inl SyntaxError\<rparr>, w))"
    by (simp_all add: example_env_line_feed_def)
  have origin: "getValidatedOrigin example_env_line_feed ?req =
      Inr (Some ''https://app.example'')"
    by (simp add: getValidatedOrigin_def new_URL_def example_headers_get_Origin
          env example_simps example_urls_def)
  have compare: "comparePassword example_env_line_feed (JStr ''pw'')
      (JStr ''7777777777777777:77703737'') = Inr True"
    by code_simp
  have hs: "new_Headers
      [(''Access-Control-Allow-Origin'', or_else (Some ''https://app.example'') ''*''),
       (''Content-Type'', ''application/json''),
       (''Set-Cookie'', sessionCookie_of (''s-42'' @ [CHR 0x0A]))] = Inl TypeError"
    by (simp add: new_Headers_def headers_set_def normalize_value_def is_http_whitespace_def
          has_forbidden_byte_def or_else_def sessionCookie_of_eq)
  have js: "json ?req = Inr ?body"
    by (simp add: example_request_def)
  have "\<exists>s'. login_attempt example_env_line_feed ?req (JStr ''alice'') (JStr ''pw'') s0 =
      (Inl TypeError, s')"
    using hs
    by (simp add: login_attempt_def prog_simps db_all_def service_fetch_def record_call_def
          env example_simps example_row_def compare origin Let_def)
  then have "\<exists>s'. handleLogin example_env_line_feed ?req s0 =
      (Inr (new_Response (error_body ''Login failed'') (Some 401) Map.empty), s')"
    by (auto simp add: handleLogin_def prog_simps js console_error_def)
  then show ?thesis
    by (auto simp add: new_Response_def error_body_def headers_get_def lower_names)
qed

section \<open>The origin validator\<close>

lemma validated_origin_unparseable:
  "headers_get (headers request) ''Origin'' = Some origin \<Longrightarrow> URL_parse env origin = None \<Longrightarrow>
   getValidatedOrigin env request = Inl TypeError"
  by (simp add: getValidatedOrigin_def new_URL_def)

text \<open>
  Claim C3, amended. For a request whose \<^verbatim>\<open>Origin\<close> header is absent or parses as a
  URL, \<^verbatim>\<open>getValidatedOrigin\<close> does not throw: it returns \<^verbatim>\<open>null\<close> when the header is
  absent or the scheme of the parsed URL is neither \<^verbatim>\<open>http\<close> nor \<^verbatim>\<open>https\<close>, and the
  value of the header unchanged otherwise.
\<close>

theorem validated_origin_parseable:
  "(headers_get (headers request) ''Origin'' = None \<longrightarrow>
      getValidatedOrigin env request = Inr None) \<and>
   (\<forall>origin u. headers_get (headers request) ''Origin'' = Some origin \<and>
        URL_parse env origin = Some u \<longrightarrow>
      getValidatedOrigin env request =
        Inr (if protocol u = ''http:'' \<or> protocol u = ''https:'' then Some origin else None))"
  by (simp add: getValidatedOrigin_def new_URL_def)

text \<open>No header, an \<^verbatim>\<open>https\<close> origin and an \<^verbatim>\<open>ftp\<close> origin.\<close>

theorem validated_origin_parseable_witness:
  "getValidatedOrigin example_env
      (example_request ''https://worker.example/login'' [] (Inl SyntaxError)) = Inr None \<and>
   getValidatedOrigin example_env
      (example_request ''https://worker.example/login'' [(''Origin'', ''https://app.example'')]
         (Inl SyntaxError)) = Inr (Some ''https://app.example'') \<and>
   getValidatedOrigin example_env
      (example_request ''https://worker.example/login'' [(''Origin'', ''ftp://files.example'')]
         (Inl SyntaxError)) = Inr None"
proof -
  have absent: "headers_get (headers (example_request ''https://worker.example/login'' []
      (Inl SyntaxError))) ''Origin'' = None"
    by (simp add: example_request_def delivered_headers_def headers_get_def)
  have https: "URL_parse example_env ''https://app.example'' =
      Some \<lparr>protocol = ''https:'', pathname = ''/''\<rparr>"
    by (simp add: example_simps example_urls_def)
  have ftp: "URL_parse example_env ''ftp://files.example'' =
      Some \<lparr>protocol = ''ftp:'', pathname = ''/''\<rparr>"
    by (simp add: example_simps example_urls_def)
  show ?thesis
    using validated_origin_parseable
            [of "example_request ''https://worker.example/login'' [] (Inl SyntaxError)" example_env]
          validated_origin_parseable
            [of "example_request ''https://worker.example/login''
                   [(''Origin'', ''https://app.example'')] (Inl SyntaxError)" example_env]
          validated_origin_parseable
            [of "example_request ''https://worker.example/login''
                   [(''Origin'', ''ftp://files.example'')] (Inl SyntaxError)" example_env]
    by (simp add: absent https ftp example_headers_get_Origin)
qed

text \<open>
  On the header \<^verbatim>\<open>Origin: null\<close>, which is not a URL, the function does not return
  \<^verbatim>\<open>null\<close>: \<^verbatim>\<open>new URL\<close> throws a \<^verbatim>\<open>TypeError\<close> and nothing catches it.
\<close>

theorem validated_origin_counterexample:
  "headers_get (headers (example_request ''https://worker.example/login''
      [(''Origin'', ''null'')] (Inl SyntaxError))) ''Origin'' = Some ''null'' \<and>
   getValidatedOrigin example_env
      (example_request ''https://worker.example/login'' [(''Origin'', ''null'')]
         (Inl SyntaxError)) = Inl TypeError"
  by (simp add: example_headers_get_Origin getValidatedOrigin_def new_URL_def example_simps
        example_urls_def)

section \<open>Logout\<close>

lemma logout_headers:
  "new_Headers [(''Set-Cookie'', ''cfw_session=; HttpOnly; Secure; SameSite=Strict; Max-Age=0'')] =
     Inr [''set-cookie'' \<mapsto> ''cfw_session=; HttpOnly; Secure; SameSite=Strict; Max-Age=0'']"
  by (simp add: new_Headers_def headers_set_value constant_header_values lower_names)

lemma logout_response_facts:
  "status (new_Response (message_body ''Logout successful'') None h) = 200"
  "resp_body (new_Response (message_body ''Logout successful'') None h) =
     Json (JObj [(''message'', JStr ''Logout successful'')])"
  "headers_get (resp_headers (new_Response (message_body ''Logout successful'') None
      [''set-cookie'' \<mapsto> ''cfw_session=; HttpOnly; Secure; SameSite=Strict; Max-Age=0'']))
     ''Set-Cookie'' = Some ''cfw_session=; HttpOnly; Secure; SameSite=Strict; Max-Age=0''"
  by (simp_all add: status_new_Response message_body_def resp_headers_new_Response lower_names
        headers_get_def)

text \<open>
  Claim C4, amended. When no session id is decoded from the cookie (or an empty one), or
  when the call that deletes the session returns a response, whatever that response is,
  \<^verbatim>\<open>handleLogout\<close> returns 200 with the body \<^verbatim>\<open>{message: 'Logout successful'}\<close> and
  the \<^verbatim>\<open>Set-Cookie\<close> header that clears the cookie.
\<close>

theorem logout_when_delete_returns:
  assumes "case sessionId_of_cookie (headers_get (headers request) ''Cookie'') of
             None \<Rightarrow> True
           | Some sid \<Rightarrow>
               sid = [] \<or>
               (\<exists>r w. sessionService_fetch env
                         \<lparr>sr_url = ''https://session-state.d1.compact.workers.dev/delete/'' @ sid,
                          sr_method = ''DELETE'', sr_headers = [], sr_body = NoBody\<rparr>
                         (world s) = (Inr r, w))"
  shows "\<exists>resp s'. handleLogout env request s = (Inr resp, s') \<and> status resp = 200 \<and>
           resp_body resp = Json (JObj [(''message'', JStr ''Logout successful'')]) \<and>
           headers_get (resp_headers resp) ''Set-Cookie'' =
             Some ''cfw_session=; HttpOnly; Secure; SameSite=Strict; Max-Age=0''"
proof (cases "sessionId_of_cookie (headers_get (headers request) ''Cookie'')")
  case None
  then show ?thesis
    by (simp add: handleLogout_def prog_simps logout_headers logout_response_facts)
next
  case (Some sid)
  show ?thesis
  proof (cases "sid = []")
    case True
    with Some show ?thesis
      by (simp add: handleLogout_def prog_simps logout_headers logout_response_facts)
  next
    case False
    with Some assms obtain r w where
      "sessionService_fetch env
         \<lparr>sr_url = ''https://session-state.d1.compact.workers.dev/delete/'' @ sid,
          sr_method = ''DELETE'', sr_headers = [], sr_body = NoBody\<rparr> (world s) = (Inr r, w)"
      by auto
    with Some False show ?thesis
      by (simp add: handleLogout_def prog_simps logout_headers logout_response_facts
            service_fetch_apply)
  qed
qed

text \<open>A logout with the cookie \<^verbatim>\<open>cfw_session=s-42\<close>, the session service answering.\<close>

theorem logout_when_delete_returns_witness:
  "sessionId_of_cookie (headers_get (headers (example_request ''https://worker.example/logout''
      [(''Cookie'', ''cfw_session=s-42'')] (Inl SyntaxError))) ''Cookie'') = Some ''s-42'' \<and>
   (\<exists>r w. sessionService_fetch example_env
             \<lparr>sr_url = ''https://session-state.d1.compact.workers.dev/delete/'' @ ''s-42'',
              sr_method = ''DELETE'', sr_headers = [], sr_body = NoBody\<rparr>
             (world s0) = (Inr r, w)) \<and>
   (\<exists>resp s'. handleLogout example_env
        (example_request ''https://worker.example/logout''
           [(''Cookie'', ''cfw_session=s-42'')] (Inl SyntaxError)) s0 = (Inr resp, s') \<and>
      status resp = 200 \<and>
      resp_body resp = Json (JObj [(''message'', JStr ''Logout successful'')]) \<and>
      headers_get (resp_headers resp) ''Set-Cookie'' =
        Some ''cfw_session=; HttpOnly; Secure; SameSite=Strict; Max-Age=0'')"
  using logout_when_delete_returns
    [where request = "example_request ''https://worker.example/logout''
           [(''Cookie'', ''cfw_session=s-42'')] (Inl SyntaxError)"
       and env = example_env and s = s0]
  by (simp add: example_headers_get_Cookie example_cookie example_simps)

text \<open>
  The same logout with the session service out of reach: the exception of the delete
  call is not swallowed, \<^verbatim>\<open>handleLogout\<close> throws it and returns no response.
\<close>

theorem logout_delete_throws_counterexample:
  "handleLogout example_env_service_down
     (example_request ''https://worker.example/logout''
        [(''Cookie'', ''cfw_session=s-42'')] (Inl SyntaxError)) s0 =
   (Inl (Thrown ''unreachable''),
    \<lparr>world = (),
     trace = [ServiceFetch
               \<lparr>sr_url = ''https://session-state.d1.compact.workers.dev/delete/s-42'',
                sr_method = ''DELETE'', sr_headers = [], sr_body = NoBody\<rparr>]\<rparr>)"
  by (simp add: handleLogout_def prog_simps example_headers_get_Cookie example_cookie
        service_fetch_def record_call_def example_env_service_down_def s0_def)

section \<open>The headers stamped by the entry point\<close>

lemma validated_origin_nonempty:
  "URL_parse env [] = None \<Longrightarrow> getValidatedOrigin env request = Inr (Some v) \<Longrightarrow> v \<noteq> []"
  by (auto simp add: getValidatedOrigin_def new_URL_def split: option.splits if_splits)

lemma or_else_validated:
  "URL_parse env [] = None \<Longrightarrow> getValidatedOrigin env request = Inr origin \<Longrightarrow>
   or_else origin ''*'' = (case origin of None \<Rightarrow> ''*'' | Some v \<Rightarrow> v)"
  by (cases origin) (auto simp add: or_else_def dest: validated_origin_nonempty)

lemma or_else_validated_header_value:
  assumes "getValidatedOrigin env request = Inr origin"
    and "\<And>n v. headers request n = Some v \<Longrightarrow> is_header_value v"
  shows "is_header_value (or_else origin ''*'')"
  by (rule or_else_origin_header_value [OF assms(1)]) (simp add: headers_get_def assms(2))

lemma fill_headers_returns:
  "list_all (\<lambda>(k, v). is_header_value v) kvs \<Longrightarrow> \<exists>h'. fill_headers h kvs = Inr h'"
  by (induction kvs arbitrary: h) (auto simp add: headers_set_value)

text \<open>The handlers that return a response on every request: \<^verbatim>\<open>handleRegister\<close>, whose
  \<^verbatim>\<open>try\<close> block holds its whole body, and \<^verbatim>\<open>handleOptions\<close> once the origin is
  validated.\<close>

lemma handleRegister_returns: "\<exists>resp s'. handleRegister env request s = (Inr resp, s')"
  unfolding handleRegister_def try_catch_apply ret_apply
  by (auto split: prod.splits sum.splits)

lemma handleOptions_returns:
  assumes "getValidatedOrigin env request = Inr origin"
    and "\<And>n v. headers request n = Some v \<Longrightarrow> is_header_value v"
  shows "\<exists>r. handleOptions env request = Inr r"
proof -
  have "is_header_value (or_else (headers_get (headers request)
          ''Access-Control-Request-Headers'') [])"
    by (rule or_else_header_value) (simp_all add: headers_get_def assms(2) constant_header_values)
  moreover note or_else_validated_header_value [OF assms]
  ultimately have
    "\<exists>h. new_Headers (corsHeaders @
        [(''Access-Control-Allow-Headers'',
            or_else (headers_get (headers request) ''Access-Control-Request-Headers'') []),
         (''Content-Type'', ''text/plain''),
         (''X-Content-Type-Options'', ''nosniff''),
         (''Access-Control-Allow-Origin'', or_else origin ''*'')]) = Inr h"
    unfolding new_Headers_def
    by (intro fill_headers_returns) (simp add: corsHeaders_def constant_header_values)
  moreover have
    "\<exists>h. new_Headers [(''Allow'', ''GET, HEAD, POST, OPTIONS''), (''Content-Type'', ''text/plain'')] =
       Inr h"
    unfolding new_Headers_def
    by (intro fill_headers_returns) (simp add: constant_header_values)
  ultimately show ?thesis
    by (auto simp add: handleOptions_def new_Response_init_def assms(1) Let_def)
qed

text \<open>
  Claim C5, amended. For every incoming request whose \<^verbatim>\<open>Origin\<close> header is absent or
  parses as a URL, and whose handler returns a response, \<^verbatim>\<open>fetch\<close> returns a response,
  and that response carries \<^verbatim>\<open>Access-Control-Allow-Origin\<close> equal to the validated
  origin of the request, or \<^verbatim>\<open>*\<close> when there is none,
  \<^verbatim>\<open>Access-Control-Allow-Methods\<close> equal to \<^verbatim>\<open>GET, POST, PUT, DELETE, OPTIONS\<close>, and
  \<^verbatim>\<open>Access-Control-Allow-Credentials: true\<close>. The handler returns on every request
  with the method \<^verbatim>\<open>OPTIONS\<close>, to \<^verbatim>\<open>/register\<close> and to an unmatched path (the 404);
  for the four other routes it is a hypothesis. The request is one the platform
  delivers: its URL parses and its headers are header values; the URL parser is any that
  rejects the empty string, as \<^verbatim>\<open>new URL('')\<close> does.
\<close>

theorem fetch_cors_headers:
  assumes "URL_parse env [] = None"
    and "URL_parse env (url request) = Some u"
    and "\<And>n v. headers request n = Some v \<Longrightarrow> is_header_value v"
    and "getValidatedOrigin env request = Inr origin"
    and "method request \<noteq> ''OPTIONS'' \<Longrightarrow> pathname u = ''/login'' \<Longrightarrow>
           \<exists>r s1. handleLogin env request s = (Inr r, s1)"
    and "method request \<noteq> ''OPTIONS'' \<Longrightarrow> pathname u = ''/logout'' \<Longrightarrow>
           \<exists>r s1. handleLogout env request s = (Inr r, s1)"
    and "method request \<noteq> ''OPTIONS'' \<Longrightarrow> pathname u = ''/forgot-password'' \<Longrightarrow>
           \<exists>r s1. handleForgotPassword env request s = (Inr r, s1)"
    and "method request \<noteq> ''OPTIONS'' \<Longrightarrow> pathname u = ''/load-user'' \<Longrightarrow>
           \<exists>r s1. handleLoadUser env request s = (Inr r, s1)"
  shows "\<exists>resp s'. fetch env request s = (Inr resp, s') \<and>
           headers_get (resp_headers resp) ''Access-Control-Allow-Origin'' =
             Some (case origin of None \<Rightarrow> ''*'' | Some v \<Rightarrow> v) \<and>
           headers_get (resp_headers resp) ''Access-Control-Allow-Methods'' =
             Some ''GET, POST, PUT, DELETE, OPTIONS'' \<and>
           headers_get (resp_headers resp) ''Access-Control-Allow-Credentials'' = Some ''true''"
proof -
  let ?route =
    "if method request = ''OPTIONS'' then lift (handleOptions env request)
     else if pathname u = ''/register'' then handleRegister env request
     else if pathname u = ''/login'' then handleLogin env request
     else if pathname u = ''/logout'' then handleLogout env request
     else if pathname u = ''/forgot-password'' then handleForgotPassword env request
     else if pathname u = ''/load-user'' then handleLoadUser env request
     else ret (new_Response (Text ''Not Found'') (Some 404) Map.empty)"
  have url: "new_URL env (url request) = Inr u"
    by (simp add: new_URL_def assms(2))
  have legal: "is_header_value (or_else origin ''*'')"
    by (rule or_else_validated_header_value [OF assms(4,3)])
  have "\<exists>response s1. ?route s = (Inr response, s1)"
    using handleOptions_returns [OF assms(4,3)] handleRegister_returns [of env request s]
      assms(5-8)
    by (auto simp add: lift_apply ret_apply)
  then obtain response s1 where route: "?route s = (Inr response, s1)"
    by blast
  let ?h = "(resp_headers response)
     (''access-control-allow-origin'' \<mapsto> or_else origin ''*'',
      ''access-control-allow-methods'' \<mapsto> ''GET, POST, PUT, DELETE, OPTIONS'',
      ''access-control-allow-credentials'' \<mapsto> ''true'')"
  have "fetch env request s = (Inr (response\<lparr>resp_headers := ?h\<rparr>), s1)"
    unfolding fetch_def
    by (simp only: bind_apply lift_apply ret_apply url Let_def route assms(4) prod.case
          sum.case headers_set_value [OF legal] headers_set_value constant_header_values
          lower_names)
  then show ?thesis
    by (simp add: headers_get_def lower_names or_else_validated [OF assms(1,4)])
qed

text \<open>
  Three requests of the sample deployment: one to an unknown path from the origin
  \<^verbatim>\<open>https://app.example\<close>, answered 404; a plain \<^verbatim>\<open>OPTIONS\<close> request without an
  \<^verbatim>\<open>Origin\<close>, answered by the fallback branch and stamped with \<^verbatim>\<open>*\<close>; and the login of
  \<^verbatim>\<open>alice\<close>, where the hypothesis that \<^verbatim>\<open>handleLogin\<close> returns is met.
\<close>

theorem fetch_cors_headers_witness:
  "URL_parse example_env [] = None \<and>
   is_header_value ''https://app.example'' \<and>
   (\<exists>resp s'. fetch example_env
        (example_request ''https://worker.example/missing''
           [(''Origin'', ''https://app.example'')] (Inl SyntaxError)) s0 = (Inr resp, s') \<and>
      headers_get (resp_headers resp) ''Access-Control-Allow-Origin'' =
        Some ''https://app.example'' \<and>
      headers_get (resp_headers resp) ''Access-Control-Allow-Methods'' =
        Some ''GET, POST, PUT, DELETE, OPTIONS'' \<and>
      headers_get (resp_headers resp) ''Access-Control-Allow-Credentials'' = Some ''true'') \<and>
   (\<exists>resp s'. fetch example_env
        ((example_request ''https://worker.example/missing'' [] (Inl SyntaxError))
           \<lparr>method := ''OPTIONS''\<rparr>) s0 = (Inr resp, s') \<and>
      headers_get (resp_headers resp) ''Access-Control-Allow-Origin'' = Some ''*'' \<and>
      headers_get (resp_headers resp) ''Access-Control-Allow-Methods'' =
        Some ''GET, POST, PUT, DELETE, OPTIONS'' \<and>
      headers_get (resp_headers resp) ''Access-Control-Allow-Credentials'' = Some ''true'') \<and>
   (\<exists>resp s'. fetch example_env
        (example_request ''https://worker.example/login''
           [(''Origin'', ''https://app.example'')]
           (Inr (JObj [(''username'', JStr ''alice''), (''password'', JStr ''pw'')]))) s0 =
        (Inr resp, s') \<and>
      headers_get (resp_headers resp) ''Access-Control-Allow-Origin'' =
        Some ''https://app.example'' \<and>
      headers_get (resp_headers resp) ''Access-Control-Allow-Methods'' =
        Some ''GET, POST, PUT, DELETE, OPTIONS'' \<and>
      headers_get (resp_headers resp) ''Access-Control-Allow-Credentials'' = Some ''true'')"
proof -
  let ?missing = "example_request ''https://worker.example/missing''
           [(''Origin'', ''https://app.example'')] (Inl SyntaxError)"
  let ?options = "(example_request ''https://worker.example/missing'' [] (Inl SyntaxError))
           \<lparr>method := ''OPTIONS''\<rparr>"
  let ?body = "JObj [(''username'', JStr ''alice''), (''password'', JStr ''pw'')]"
  let ?login = "example_request ''https://worker.example/login''
           [(''Origin'', ''https://app.example'')] (Inr ?body)"
  have parse: "URL_parse example_env [] = None"
    by (simp add: example_simps example_urls_def)
  have hv: "is_header_value ''https://app.example''"
    by (simp add: is_header_value_def normalize_value_def is_http_whitespace_def
          has_forbidden_byte_def)
  have delivered: "is_header_value v"
    if "headers (example_request a [(''Origin'', ''https://app.example'')] b) n = Some v"
    for a b n v
    using that hv
    by (simp add: example_request_def delivered_headers_def split: if_splits)
  have origin: "getValidatedOrigin example_env
      (example_request a [(''Origin'', ''https://app.example'')] b) =
      Inr (Some ''https://app.example'')" for a b
    by (simp add: getValidatedOrigin_def new_URL_def example_headers_get_Origin example_simps
          example_urls_def)
  have no_origin: "getValidatedOrigin example_env ?options = Inr None"
    by (simp add: getValidatedOrigin_def example_request_def delivered_headers_def
          headers_get_def)
  have login: "\<exists>r s1. handleLogin example_env ?login s0 = (Inr r, s1)"
    by (rule handleLogin_returns_when_parsed [where credentials = ?body])
       (simp_all add: example_request_def)
  have first: "\<exists>resp s'. fetch example_env ?missing s0 = (Inr resp, s') \<and>
      headers_get (resp_headers resp) ''Access-Control-Allow-Origin'' =
        Some (case Some ''https://app.example'' of None \<Rightarrow> ''*'' | Some v \<Rightarrow> v) \<and>
      headers_get (resp_headers resp) ''Access-Control-Allow-Methods'' =
        Some ''GET, POST, PUT, DELETE, OPTIONS'' \<and>
      headers_get (resp_headers resp) ''Access-Control-Allow-Credentials'' = Some ''true''"
    by (rule fetch_cors_headers [OF parse _ delivered origin,
          where u = "\<lparr>protocol = ''https:'', pathname = ''/missing''\<rparr>"])
       (simp_all add: example_request_def example_simps example_urls_def)
  have second: "\<exists>resp s'. fetch example_env ?options s0 = (Inr resp, s') \<and>
      headers_get (resp_headers resp) ''Access-Control-Allow-Origin'' =
        Some (case None of None \<Rightarrow> ''*'' | Some v \<Rightarrow> v) \<and>
      headers_get (resp_headers resp) ''Access-Control-Allow-Methods'' =
        Some ''GET, POST, PUT, DELETE, OPTIONS'' \<and>
      headers_get (resp_headers resp) ''Access-Control-Allow-Credentials'' = Some ''true''"
    by (rule fetch_cors_headers [OF parse _ _ no_origin,
          where u = "\<lparr>protocol = ''https:'', pathname = ''/missing''\<rparr>"])
       (simp_all add: example_request_def example_simps example_urls_def
          delivered_headers_def)
  have third: "\<exists>resp s'. fetch example_env ?login s0 = (Inr resp, s') \<and>
      headers_get (resp_headers resp) ''Access-Control-Allow-Origin'' =
        Some (case Some ''https://app.example'' of None \<Rightarrow> ''*'' | Some v \<Rightarrow> v) \<and>
      headers_get (resp_headers resp) ''Access-Control-Allow-Methods'' =
        Some ''GET, POST, PUT, DELETE, OPTIONS'' \<and>
      headers_get (resp_headers resp) ''Access-Control-Allow-Credentials'' = Some ''true''"
    by (rule fetch_cors_headers [OF parse _ delivered origin,
          where u = "\<lparr>protocol = ''https:'', pathname = ''/login''\<rparr>"])
       (simp_all add: example_request_def example_simps example_urls_def login [unfolded
          example_request_def])
  from parse hv first second third show ?thesis
    by simp
qed

text \<open>
  The same two requests with the header \<^verbatim>\<open>Origin: null\<close>, which is not a URL: the 404
  and the fallback answer to \<^verbatim>\<open>OPTIONS\<close> are produced, then \<^verbatim>\<open>getValidatedOrigin\<close>
  throws in the line that stamps the first header, and \<^verbatim>\<open>fetch\<close> returns no response
  at all.
\<close>

theorem fetch_bad_origin_counterexample:
  "fetch example_env
     (example_request ''https://worker.example/missing'' [(''Origin'', ''null'')]
        (Inl SyntaxError)) s0 = (Inl TypeError, s0) \<and>
   fetch example_env
     ((example_request ''https://worker.example/missing'' [(''Origin'', ''null'')]
        (Inl SyntaxError))\<lparr>method := ''OPTIONS''\<rparr>) s0 = (Inl TypeError, s0)"
proof -
  let ?request = "\<lambda>m. \<lparr>method = m, url = ''https://worker.example/missing'',
      headers = delivered_headers [(''Origin'', ''null'')], json = Inl SyntaxError\<rparr>"
  have origin: "getValidatedOrigin example_env (?request m) = Inl TypeError" for m
    by (simp add: getValidatedOrigin_def new_URL_def delivered_headers_def
          headers_get_def lower_names example_simps example_urls_def)
  have allow: "new_Headers [(''Allow'', ''GET, HEAD, POST, OPTIONS''),
      (''Content-Type'', ''text/plain'')] =
      Inr [toLowerCase ''Allow'' \<mapsto> ''GET, HEAD, POST, OPTIONS'',
           ''content-type'' \<mapsto> ''text/plain'']"
    by (simp add: new_Headers_def headers_set_value constant_header_values lower_names)
  have missing: "URL_parse example_env ''https://worker.example/missing'' =
      Some \<lparr>protocol = ''https:'', pathname = ''/missing''\<rparr>"
    by (simp add: example_simps example_urls_def)
  have "fetch example_env (?request ''POST'') s0 = (Inl TypeError, s0)"
    by (simp add: fetch_def prog_simps Let_def new_URL_def missing origin)
  moreover have "fetch example_env (?request ''OPTIONS'') s0 = (Inl TypeError, s0)"
    by (simp add: fetch_def prog_simps Let_def new_URL_def missing origin handleOptions_def
          new_Response_init_def allow)
  ultimately show ?thesis
    by (simp add: example_request_def)
qed

section \<open>The session cookie\<close>

lemma split_js_unfold:
  "split_js sep s =
     takeWhile (\<lambda>c. c \<noteq> sep) s #
       (if sep \<in> set s then split_js sep (drop 1 (dropWhile (\<lambda>c. c \<noteq> sep) s)) else [])"
proof (induction s)
  case Nil
  show ?case by simp
next
  case (Cons c cs)
  show ?case
  proof (cases "c = sep")
    case True
    then show ?thesis by simp
  next
    case False
    with Cons show ?thesis by (cases "split_js sep cs") auto
  qed
qed

lemma at_js_split_second:
  assumes "sep \<in> set s"
  shows "at_js (split_js sep s) (Suc 0) =
           Some (takeWhile (\<lambda>c. c \<noteq> sep) (drop 1 (dropWhile (\<lambda>c. c \<noteq> sep) s)))"
proof -
  let ?rest = "drop 1 (dropWhile (\<lambda>c. c \<noteq> sep) s)"
  from assms have "split_js sep s = takeWhile (\<lambda>c. c \<noteq> sep) s # split_js sep ?rest"
    by (subst split_js_unfold) simp
  moreover have "\<exists>t. split_js sep ?rest = takeWhile (\<lambda>c. c \<noteq> sep) ?rest # t"
    by (subst split_js_unfold) simp
  ultimately show ?thesis
    by (auto simp add: at_js_def)
qed

lemma startsWith_name:
  assumes "sep \<notin> set n"
  shows "startsWith e (n @ [sep]) \<longleftrightarrow> sep \<in> set e \<and> takeWhile (\<lambda>c. c \<noteq> sep) e = n"
proof
  assume "startsWith e (n @ [sep])"
  then have "take (length n + 1) e = n @ [sep]"
    by (simp add: startsWith_def)
  then have "e = (n @ [sep]) @ drop (length n + 1) e"
    using append_take_drop_id [of "length n + 1" e] by simp
  then have "e = n @ sep # drop (length n + 1) e"
    by simp
  then obtain r where e: "e = n @ sep # r" ..
  from assms show "sep \<in> set e \<and> takeWhile (\<lambda>c. c \<noteq> sep) e = n"
    unfolding e by (auto simp add: takeWhile_tail)
next
  assume a: "sep \<in> set e \<and> takeWhile (\<lambda>c. c \<noteq> sep) e = n"
  then have ne: "dropWhile (\<lambda>c. c \<noteq> sep) e \<noteq> []"
    by (simp add: dropWhile_eq_Nil_conv)
  then obtain x r where xr: "dropWhile (\<lambda>c. c \<noteq> sep) e = x # r"
    by (cases "dropWhile (\<lambda>c. c \<noteq> sep) e") auto
  from hd_dropWhile [OF ne] xr have "x = sep"
    by simp
  have "takeWhile (\<lambda>c. c \<noteq> sep) e @ dropWhile (\<lambda>c. c \<noteq> sep) e = e"
    by (rule takeWhile_dropWhile_id)
  with a xr \<open>x = sep\<close> have "n @ sep # r = e"
    by simp
  then have "take (length (n @ [sep])) e = n @ [sep]"
    by auto
  then show "startsWith e (n @ [sep])"
    by (simp only: startsWith_def)
qed

lemma startsWith_cfw_session:
  "startsWith e ''cfw_session='' = is_entry_named ''cfw_session'' e"
  using startsWith_name [of "CHR ''=''" "''cfw_session''" e]
  by (simp add: is_entry_named_def entry_name_def)

text \<open>
  Claim C6, amended. The decoding that \<^verbatim>\<open>handleLoadUser\<close> and \<^verbatim>\<open>handleLogout\<close> share
  splits the \<^verbatim>\<open>Cookie\<close> header on \<^verbatim>\<open>;\<close>, trims each entry, locates the first entry
  whose name is \<^verbatim>\<open>cfw_session\<close>, and takes as session id the text after the first
  \<^verbatim>\<open>=\<close> of that entry up to its next \<^verbatim>\<open>=\<close>, or to its end when there is none. An
  absent header, or a header without such an entry, gives no session id and no error.
\<close>

theorem cookie_decode_refines:
  "sessionId_of_cookie cookieHeader = cookie_decode_amended cookieHeader"
proof (cases cookieHeader)
  case None
  then show ?thesis
    by (simp add: sessionId_of_cookie_def cookie_decode_amended_def)
next
  case (Some c)
  have pred: "(\<lambda>cookie. startsWith cookie ''cfw_session='') = is_entry_named ''cfw_session''"
    by (rule ext) (rule startsWith_cfw_session)
  show ?thesis
  proof (cases "c = []")
    case True
    with Some show ?thesis
      by (simp add: sessionId_of_cookie_def cookie_decode_amended_def trim_def
            is_entry_named_def)
  next
    case False
    show ?thesis
    proof (cases "find (is_entry_named ''cfw_session'') (map trim (split_js (CHR '';'') c))")
      case None
      with Some False show ?thesis
        by (simp add: sessionId_of_cookie_def cookie_decode_amended_def pred)
    next
      case (Some e)
      then have "is_entry_named ''cfw_session'' e"
        by (auto simp add: find_Some_iff)
      then have eq: "CHR ''='' \<in> set e"
        by (simp add: is_entry_named_def)
      then have "e \<noteq> []" by auto
      with Some \<open>cookieHeader = Some c\<close> False eq show ?thesis
        by (simp add: sessionId_of_cookie_def cookie_decode_amended_def pred
              at_js_split_second text_after_first_equals_def)
    qed
  qed
qed

text \<open>
  A session id that holds a \<^verbatim>\<open>=\<close>: the specification takes \<^verbatim>\<open>abc=def\<close>, the code
  \<^verbatim>\<open>abc\<close>, the second piece of \<^verbatim>\<open>split('=')\<close>.
\<close>

theorem cookie_decode_counterexample:
  "sessionId_of_cookie (Some ''theme=dark; cfw_session=abc=def'') = Some ''abc'' \<and>
   cookie_decode_spec (Some ''theme=dark; cfw_session=abc=def'') = Some ''abc=def''"
  by (simp add: sessionId_of_cookie_def cookie_decode_spec_def trim_def is_whitespace_def
        startsWith_def at_js_def is_entry_named_def entry_name_def text_after_first_equals_def)

section \<open>Registration\<close>

text \<open>
  Claim C7, amended. For a \<^verbatim>\<open>/register\<close> request whose body parses as JSON to a value
  other than \<^verbatim>\<open>null\<close> (so that its properties can be read), with \<^verbatim>\<open>username\<close> or
  \<^verbatim>\<open>password\<close> missing or empty (falsy), \<^verbatim>\<open>handleRegister\<close> returns 400
  \<^verbatim>\<open>{error: 'Missing required fields'}\<close>, and the world and the trace of calls are what
  they were: no query, no insert, no call at all.
\<close>

theorem register_missing_fields:
  assumes "json request = Inr regData"
    and "get_prop regData ''username'' = Inr username"
    and "get_prop regData ''password'' = Inr password"
    and "\<not> truthy username \<or> \<not> truthy password"
  shows "\<exists>resp. handleRegister env request s = (Inr resp, s) \<and> status resp = 400 \<and>
           resp_body resp = Json (JObj [(''error'', JStr ''Missing required fields'')])"
proof -
  obtain firstName lastName where
    names: "get_prop regData ''firstName'' = Inr firstName"
           "get_prop regData ''lastName'' = Inr lastName"
    using assms(2) by (cases regData) simp_all
  have "handleRegister env request s =
          (Inr (new_Response (error_body ''Missing required fields'') (Some 400) Map.empty), s)"
    using assms(4) by (auto simp add: handleRegister_def prog_simps assms(1-3) names)
  then show ?thesis
    by (simp add: status_new_Response error_body_def)
qed

text \<open>A body with a \<^verbatim>\<open>username\<close> and no \<^verbatim>\<open>password\<close>.\<close>

theorem register_missing_fields_witness:
  "json (example_request ''https://worker.example/register'' []
           (Inr (JObj [(''username'', JStr ''bob'')]))) = Inr (JObj [(''username'', JStr ''bob'')]) \<and>
   get_prop (JObj [(''username'', JStr ''bob'')]) ''password'' = Inr JUndefined \<and>
   \<not> truthy JUndefined \<and>
   (\<exists>resp. handleRegister example_env
              (example_request ''https://worker.example/register'' []
                 (Inr (JObj [(''username'', JStr ''bob'')]))) s0 = (Inr resp, s0) \<and>
            status resp = 400 \<and>
            resp_body resp = Json (JObj [(''error'', JStr ''Missing required fields'')]))"
  using register_missing_fields
    [of "example_request ''https://worker.example/register'' []
           (Inr (JObj [(''username'', JStr ''bob'')]))"
        "JObj [(''username'', JStr ''bob'')]" "JStr ''bob''" JUndefined example_env s0]
  by (simp add: example_request_def)

text \<open>
  The body \<^verbatim>\<open>null\<close> parses as JSON and has neither field, yet the answer is 500, not
  400: destructuring \<^verbatim>\<open>null\<close> throws, and the \<^verbatim>\<open>catch\<close> of the handler answers. The
  store is not touched here either.
\<close>

theorem register_null_body_counterexample:
  "json (example_request ''https://worker.example/register'' [] (Inr JNull)) = Inr JNull \<and>
   (\<exists>resp. handleRegister example_env
              (example_request ''https://worker.example/register'' [] (Inr JNull)) s0 =
              (Inr resp, s0) \<and>
            status resp = 500 \<and>
            resp_body resp = Json (JObj [(''error'', JStr ''Internal server error'')]))"
  by (simp add: handleRegister_def prog_simps example_request_def status_new_Response
        error_body_def)

text \<open>
  Claim C8. When the request names a username (and a password, so that the existence
  query is issued) and the query reports a matching record, \<^verbatim>\<open>handleRegister\<close> returns
  409 \<^verbatim>\<open>{error: 'User already exists'}\<close>, and the only call it has made is that query:
  no insert is attempted.
\<close>

theorem register_existing_user:
  assumes "json request = Inr regData"
    and "get_prop regData ''username'' = Inr username"
    and "get_prop regData ''password'' = Inr password"
    and "truthy username" and "truthy password"
    and "usersDB_all env checkUserQuery [username] (world s) = (Inr existingUser, w)"
    and "success existingUser" and "results existingUser \<noteq> []"
  shows "\<exists>resp. handleRegister env request s =
             (Inr resp, \<lparr>world = w, trace = trace s @ [DbAll checkUserQuery [username]]\<rparr>) \<and>
           status resp = 409 \<and>
           resp_body resp = Json (JObj [(''error'', JStr ''User already exists'')])"
proof -
  obtain firstName lastName where
    names: "get_prop regData ''firstName'' = Inr firstName"
           "get_prop regData ''lastName'' = Inr lastName"
    using assms(2) by (cases regData) simp_all
  have "handleRegister env request s =
          (Inr (new_Response (error_body ''User already exists'') (Some 409) Map.empty),
           \<lparr>world = w, trace = trace s @ [DbAll checkUserQuery [username]]\<rparr>)"
    using assms(4,5,7,8)
    by (simp add: handleRegister_def prog_simps assms(1-3) names db_all_apply [OF assms(6)])
  then show ?thesis
    by (simp add: status_new_Response error_body_def)
qed

text \<open>Registering \<^verbatim>\<open>alice\<close> again in the sample deployment.\<close>

theorem register_existing_user_witness:
  "truthy (JStr ''alice'') \<and> truthy (JStr ''pw2'') \<and>
   usersDB_all example_env checkUserQuery [JStr ''alice''] (world s0) =
     (Inr \<lparr>success = True, results = [example_row]\<rparr>, ()) \<and>
   (\<exists>resp. handleRegister example_env
              (example_request ''https://worker.example/register'' []
                 (Inr (JObj [(''username'', JStr ''alice''), (''password'', JStr ''pw2'')]))) s0 =
              (Inr resp, \<lparr>world = (), trace = [DbAll checkUserQuery [JStr ''alice'']]\<rparr>) \<and>
            status resp = 409 \<and>
            resp_body resp = Json (JObj [(''error'', JStr ''User already exists'')]))"
  using register_existing_user
    [of "example_request ''https://worker.example/register'' []
           (Inr (JObj [(''username'', JStr ''alice''), (''password'', JStr ''pw2'')]))"
        "JObj [(''username'', JStr ''alice''), (''password'', JStr ''pw2'')]"
        "JStr ''alice''" "JStr ''pw2''" example_env s0
        "\<lparr>success = True, results = [example_row]\<rparr>" "()"]
  by (simp add: example_request_def example_simps s0_def)



end
